theory Spec2Isabelle
  imports Complex_Main "HOL-Library.Char_ord" "HOL-Library.List_Lexorder"
begin

section \<open>Values of the host language\<close>

text \<open>
  The program is TypeScript. A \<^verbatim>\<open>number\<close> is modelled as a real (page numbers and
  quantities as integers), and the values NaN and Infinity are outside the model. The
  model does not compute with prices: where the program adds and multiplies them, the
  addition and the multiplication of doubles are parameters of the model. A string is
  a \<^typ>\<open>string\<close>, compared code unit by code unit as JavaScript does. Every
  \<^verbatim>\<open>throw new Error(msg)\<close> is the value \<open>Inl (Error msg)\<close> of a sum.
\<close>

datatype error = Error string

text \<open>
  The value read by \<^verbatim>\<open>(a as any)[params.sortBy]\<close>: the records of this program hold
  strings and numbers, and a field that is absent reads \<^verbatim>\<open>undefined\<close>.
\<close>

datatype jsval = Undefined | Num real | Str string

text \<open>
  JavaScript's \<^verbatim>\<open>x > y\<close>. Two strings compare lexicographically, two numbers
  numerically; \<^verbatim>\<open>undefined\<close> converts to NaN, and every comparison with NaN is false.
  A number against a string compares after converting the string to a number: no
  column of this program holds both, and the case is given the value of a string that is
  not numeric (NaN, hence false).
\<close>

fun js_gt :: "jsval \<Rightarrow> jsval \<Rightarrow> bool" where
  "js_gt (Num a) (Num b) = (a > b)"
| "js_gt (Str a) (Str b) = (a > b)"
| "js_gt _ _ = False"

text \<open>
  \<^verbatim>\<open>Array.prototype.slice(start, end)\<close>: a negative index counts from the end, and
  both ends are clamped to the array.
\<close>

definition slice :: "'a list \<Rightarrow> int \<Rightarrow> int \<Rightarrow> 'a list" where
  "slice xs start end' =
     (let len = int (length xs);
          k = (if start < 0 then max (len + start) 0 else min start len);
          final = (if end' < 0 then max (len + end') 0 else min end' len)
      in take (nat (final - k)) (drop (nat k) xs))"

text \<open>\<^verbatim>\<open>Array.prototype.join(sep)\<close> on an array of strings.\<close>

fun join :: "string \<Rightarrow> string list \<Rightarrow> string" where
  "join sep [] = []"
| "join sep [x] = x"
| "join sep (x # y # ys) = x @ sep @ join sep (y # ys)"

section \<open>The query engine: \<^verbatim>\<open>filterAndPaginate\<close> (src/services/api.ts)\<close>

datatype SortOrder = Asc | Desc

record QueryParams =
  page :: "int option"
  limit :: "int option"
  sortBy :: "string option"
  sortOrder :: "SortOrder option"
  search :: "string option"
  category :: "string option"
  status :: "string option"

record Pagination =
  pg_page :: int
  pg_limit :: int
  pg_total :: nat
  pg_totalPages :: int

record 'a Paginated =
  data :: "'a list"
  pagination :: Pagination

text \<open>Truthiness of an optional string: present and not empty.\<close>

fun truthy_str :: "string option \<Rightarrow> bool" where
  "truthy_str None = False"
| "truthy_str (Some s) = (s \<noteq> [])"

text \<open>\<^verbatim>\<open>params.page || 1\<close> and \<^verbatim>\<open>params.limit || 10\<close>: absent and 0 give the default.\<close>

fun or_default :: "int option \<Rightarrow> int \<Rightarrow> int" where
  "or_default None d = d"
| "or_default (Some n) d = (if n = 0 then d else n)"

text \<open>
  The comparison function handed to \<^verbatim>\<open>sort\<close>:
  \<^verbatim>\<open>
  (a, b) => {
    const aValue = (a as any)[params.sortBy!];
    const bValue = (b as any)[params.sortBy!];
    if (params.sortOrder === 'desc') { return bValue > aValue ? 1 : -1; }
    return aValue > bValue ? 1 : -1;
  }
  \<close>
  \<open>field\<close> reads a property of a record by name.
\<close>

definition compareFn :: "('a \<Rightarrow> string \<Rightarrow> jsval) \<Rightarrow> QueryParams \<Rightarrow> 'a \<Rightarrow> 'a \<Rightarrow> int" where
  "compareFn field params a b =
     (let aValue = field a (the (sortBy params));
          bValue = field b (the (sortBy params))
      in if sortOrder params = Some Desc
         then (if js_gt bValue aValue then 1 else -1)
         else (if js_gt aValue bValue then 1 else -1))"

text \<open>
  The search step and the sort step. \<open>srt\<close> is the engine's
  \<^verbatim>\<open>Array.prototype.sort\<close>, a parameter of the model: the language fixes its result
  only for a consistent comparison function.
\<close>

definition applySearch :: "QueryParams \<Rightarrow> ('a \<Rightarrow> string \<Rightarrow> bool) option \<Rightarrow> 'a list \<Rightarrow> 'a list" where
  "applySearch params filterFn xs =
     (if truthy_str (search params) \<and> filterFn \<noteq> None
      then filter (\<lambda>item. the filterFn item (the (search params))) xs
      else xs)"

definition applySort ::
  "(('a \<Rightarrow> 'a \<Rightarrow> int) \<Rightarrow> 'a list \<Rightarrow> 'a list) \<Rightarrow> ('a \<Rightarrow> string \<Rightarrow> jsval) \<Rightarrow> QueryParams
     \<Rightarrow> 'a list \<Rightarrow> 'a list" where
  "applySort srt field params xs =
     (if truthy_str (sortBy params) then srt (compareFn field params) xs else xs)"

definition filterAndPaginate ::
  "(('a \<Rightarrow> 'a \<Rightarrow> int) \<Rightarrow> 'a list \<Rightarrow> 'a list) \<Rightarrow> ('a \<Rightarrow> string \<Rightarrow> jsval) \<Rightarrow> 'a list
     \<Rightarrow> QueryParams \<Rightarrow> ('a \<Rightarrow> string \<Rightarrow> bool) option \<Rightarrow> 'a Paginated" where
  "filterAndPaginate srt field dat params filterFn =
     (let filteredData = applySort srt field params (applySearch params filterFn dat);
          page' = or_default (page params) 1;
          limit' = or_default (limit params) 10;
          startIndex = (page' - 1) * limit';
          endIndex = startIndex + limit';
          paginatedData = slice filteredData startIndex endIndex
      in \<lparr> data = paginatedData,
           pagination = \<lparr> pg_page = page', pg_limit = limit',
                          pg_total = length filteredData,
                          pg_totalPages = \<lceil>real (length filteredData) / real_of_int limit'\<rceil> \<rparr> \<rparr>)"

section \<open>The engine's sort\<close>

text \<open>
  What V8 (Chrome, Node.js) does for \<^verbatim>\<open>Array.prototype.sort\<close> on an array of fewer
  than 64 elements: it takes the longest run at the front of the array, which is
  either non-descending or strictly descending according to the comparison function
  (a strictly descending run is reversed), and then inserts each remaining element by
  binary search. The model is used for concrete runs only; the general theorems
  below hold for every sort function that returns as many elements as it is given.
\<close>

fun countRun :: "('a \<Rightarrow> 'a \<Rightarrow> int) \<Rightarrow> bool \<Rightarrow> 'a \<Rightarrow> 'a list \<Rightarrow> nat" where
  "countRun cmp isDescending previousElement [] = 0"
| "countRun cmp isDescending previousElement (currentElement # rest) =
     (let order = cmp currentElement previousElement
      in if (if isDescending then order \<ge> 0 else order < 0) then 0
         else Suc (countRun cmp isDescending currentElement rest))"

fun countAndMakeRun :: "('a \<Rightarrow> 'a \<Rightarrow> int) \<Rightarrow> 'a list \<Rightarrow> 'a list \<times> 'a list" where
  "countAndMakeRun cmp (elementHigh # elementLow # rest) =
     (let isDescending = cmp elementLow elementHigh < 0;
          runLength = 2 + countRun cmp isDescending elementLow rest;
          run = take runLength (elementHigh # elementLow # rest)
      in (if isDescending then rev run else run,
          drop runLength (elementHigh # elementLow # rest)))"
| "countAndMakeRun cmp xs = (xs, [])"

function binarySearch :: "('a \<Rightarrow> 'a \<Rightarrow> int) \<Rightarrow> 'a \<Rightarrow> 'a list \<Rightarrow> nat \<Rightarrow> nat \<Rightarrow> nat" where
  "binarySearch cmp pivot work left right =
     (if left < right
      then (let mid = left + (right - left) div 2
            in if cmp pivot (work ! mid) < 0
               then binarySearch cmp pivot work left mid
               else binarySearch cmp pivot work (mid + 1) right)
      else left)"
  by pat_completeness auto
termination
  by (relation "measure (\<lambda>(cmp, pivot, work, left, right). right - left)") auto

declare binarySearch.simps [simp del]

fun binaryInsertionSort :: "('a \<Rightarrow> 'a \<Rightarrow> int) \<Rightarrow> 'a list \<Rightarrow> 'a list \<Rightarrow> 'a list" where
  "binaryInsertionSort cmp work [] = work"
| "binaryInsertionSort cmp work (pivot # rest) =
     (let left = binarySearch cmp pivot work 0 (length work)
      in binaryInsertionSort cmp (take left work @ pivot # drop left work) rest)"

definition v8Sort :: "('a \<Rightarrow> 'a \<Rightarrow> int) \<Rightarrow> 'a list \<Rightarrow> 'a list" where
  "v8Sort cmp xs = (case countAndMakeRun cmp xs of (run, rest) \<Rightarrow> binaryInsertionSort cmp run rest)"

section \<open>The in-memory store and its mutations (src/services/api.ts, src/types/api.ts)\<close>

datatype Role = RoleAdmin | RoleUser | RoleModerator

record User =
  u_id :: string
  u_name :: string
  u_email :: string
  u_avatar :: "string option"
  u_role :: Role
  u_createdAt :: string
  u_updatedAt :: string

record CreateUserRequest =
  cu_name :: string
  cu_email :: string
  cu_role :: "Role option"

text \<open>A partial object: \<open>None\<close> is a property the object does not have.\<close>

record UpdateUserRequest =
  uu_name :: "string option"
  uu_email :: "string option"
  uu_role :: "Role option"

record Product =
  p_id :: string
  p_name :: string
  p_description :: string
  p_price :: real
  p_category :: string
  p_stock :: int
  p_imageUrl :: "string option"
  p_createdAt :: string
  p_updatedAt :: string

record UpdateProductRequest =
  up_name :: "string option"
  up_description :: "string option"
  up_price :: "real option"
  up_category :: "string option"
  up_stock :: "int option"
  up_imageUrl :: "string option"

record Address =
  a_street :: string
  a_city :: string
  a_state :: string
  a_zipCode :: string
  a_country :: string

record OrderItem =
  oi_id :: string
  oi_productId :: string
  oi_product :: "Product option"
  oi_quantity :: int
  oi_price :: real

datatype OrderStatus = Pending | Processing | Shipped | Delivered | Cancelled

record Order =
  o_id :: string
  o_userId :: string
  o_user :: "User option"
  o_items :: "OrderItem list"
  o_total :: real
  o_status :: OrderStatus
  o_shippingAddress :: Address
  o_createdAt :: string
  o_updatedAt :: string

record OrderItemRequest =
  ir_productId :: string
  ir_quantity :: int

record CreateOrderRequest =
  co_userId :: string
  co_items :: "OrderItemRequest list"
  co_shippingAddress :: Address

text \<open>The three module-level arrays of src/lib/mockData.ts.\<close>

record Store =
  mockUsers :: "User list"
  mockProducts :: "Product list"
  mockOrders :: "Order list"

text \<open>
  What one call of the API takes from its surroundings: the value of \<^verbatim>\<open>Math.random()\<close>
  in \<^verbatim>\<open>shouldSimulateError\<close>, the successive results of \<^verbatim>\<open>generateId()\<close> and of
  \<^verbatim>\<open>getCurrentTimestamp()\<close> (numbered from 0 in the order of the calls), and the
  engine's \<^verbatim>\<open>+\<close> and \<^verbatim>\<open>*\<close> on numbers. These two are the operations of IEEE doubles,
  which round; the model assumes nothing about them.
\<close>

record Env =
  random :: real
  generateId :: "nat \<Rightarrow> string"
  getCurrentTimestamp :: "nat \<Rightarrow> string"
  addNumbers :: "real \<Rightarrow> real \<Rightarrow> real"
  multiplyNumbers :: "real \<Rightarrow> real \<Rightarrow> real"

definition shouldSimulateError :: "Env \<Rightarrow> bool" where
  "shouldSimulateError env = (random env < 0.05)"

text \<open>\<^verbatim>\<open>Array.prototype.findIndex\<close>; \<open>None\<close> is the result \<^verbatim>\<open>-1\<close>.\<close>

fun findIndex :: "('a \<Rightarrow> bool) \<Rightarrow> 'a list \<Rightarrow> nat option" where
  "findIndex P [] = None"
| "findIndex P (x # xs) =
     (if P x then Some 0 else (case findIndex P xs of None \<Rightarrow> None | Some i \<Rightarrow> Some (Suc i)))"

definition createUser :: "Store \<Rightarrow> Env \<Rightarrow> CreateUserRequest \<Rightarrow> (error + User) \<times> Store" where
  "createUser s env userData =
     (if shouldSimulateError env then (Inl (Error ''Failed to create user''), s)
      else
        let newUser = \<lparr> u_id = generateId env 0,
                        u_name = cu_name userData,
                        u_email = cu_email userData,
                        u_avatar = None,
                        u_role = (case cu_role userData of Some r \<Rightarrow> r | None \<Rightarrow> RoleUser),
                        u_createdAt = getCurrentTimestamp env 0,
                        u_updatedAt = getCurrentTimestamp env 1 \<rparr>
        in (Inr newUser, s\<lparr> mockUsers := mockUsers s @ [newUser] \<rparr>))"

text \<open>The object spread \<^verbatim>\<open>{...mockUsers[userIndex], ...userData}\<close>.\<close>

definition spreadUser :: "User \<Rightarrow> UpdateUserRequest \<Rightarrow> User" where
  "spreadUser u userData =
     u\<lparr> u_name := (case uu_name userData of Some v \<Rightarrow> v | None \<Rightarrow> u_name u),
        u_email := (case uu_email userData of Some v \<Rightarrow> v | None \<Rightarrow> u_email u),
        u_role := (case uu_role userData of Some v \<Rightarrow> v | None \<Rightarrow> u_role u) \<rparr>"

definition updateUser :: "Store \<Rightarrow> Env \<Rightarrow> string \<Rightarrow> UpdateUserRequest \<Rightarrow> (error + User) \<times> Store" where
  "updateUser s env ident userData =
     (if shouldSimulateError env then (Inl (Error ''Failed to update user''), s)
      else
        (case findIndex (\<lambda>u. u_id u = ident) (mockUsers s) of
           None \<Rightarrow> (Inl (Error ''User not found''), s)
         | Some userIndex \<Rightarrow>
             let updatedUser =
                   (spreadUser (mockUsers s ! userIndex) userData)
                     \<lparr> u_updatedAt := getCurrentTimestamp env 0 \<rparr>
             in (Inr updatedUser,
                 s\<lparr> mockUsers := (mockUsers s)[userIndex := updatedUser] \<rparr>)))"

definition spreadProduct :: "Product \<Rightarrow> UpdateProductRequest \<Rightarrow> Product" where
  "spreadProduct p productData =
     p\<lparr> p_name := (case up_name productData of Some v \<Rightarrow> v | None \<Rightarrow> p_name p),
        p_description := (case up_description productData of Some v \<Rightarrow> v | None \<Rightarrow> p_description p),
        p_price := (case up_price productData of Some v \<Rightarrow> v | None \<Rightarrow> p_price p),
        p_category := (case up_category productData of Some v \<Rightarrow> v | None \<Rightarrow> p_category p),
        p_stock := (case up_stock productData of Some v \<Rightarrow> v | None \<Rightarrow> p_stock p),
        p_imageUrl := (case up_imageUrl productData of Some v \<Rightarrow> Some v | None \<Rightarrow> p_imageUrl p) \<rparr>"

text \<open>
  \<^verbatim>\<open>updateProduct\<close> builds a new object and stores it in the array slot; the object an
  order item refers to through its \<^verbatim>\<open>product\<close> field is never written to, so holding
  that product by value in \<open>oi_product\<close> is faithful.
\<close>

definition updateProduct ::
  "Store \<Rightarrow> Env \<Rightarrow> string \<Rightarrow> UpdateProductRequest \<Rightarrow> (error + Product) \<times> Store" where
  "updateProduct s env ident productData =
     (if shouldSimulateError env then (Inl (Error ''Failed to update product''), s)
      else
        (case findIndex (\<lambda>p. p_id p = ident) (mockProducts s) of
           None \<Rightarrow> (Inl (Error ''Product not found''), s)
         | Some productIndex \<Rightarrow>
             let updatedProduct =
                   (spreadProduct (mockProducts s ! productIndex) productData)
                     \<lparr> p_updatedAt := getCurrentTimestamp env 0 \<rparr>
             in (Inr updatedProduct,
                 s\<lparr> mockProducts := (mockProducts s)[productIndex := updatedProduct] \<rparr>)))"

text \<open>
  The callback of \<^verbatim>\<open>orderData.items.map\<close> in \<^verbatim>\<open>createOrder\<close>, run over the items from
  left to right. It adds to the variable \<^verbatim>\<open>total\<close> as it goes
  (\<^verbatim>\<open>itemTotal = product.price * item.quantity; total += itemTotal\<close>, with the engine's
  operations) and throws at the first item whose product is not in the store. \<open>k\<close>
  counts the calls of \<^verbatim>\<open>generateId\<close>.
\<close>

fun mapItems ::
  "Env \<Rightarrow> Product list \<Rightarrow> nat \<Rightarrow> real \<Rightarrow> OrderItemRequest list
     \<Rightarrow> error + (OrderItem list \<times> real)" where
  "mapItems env products k runningTotal [] = Inr ([], runningTotal)"
| "mapItems env products k runningTotal (item # rest) =
     (case find (\<lambda>p. p_id p = ir_productId item) products of
        None \<Rightarrow> Inl (Error (''Product with ID '' @ ir_productId item @ '' not found''))
      | Some product \<Rightarrow>
          (let itemTotal = multiplyNumbers env (p_price product) (real_of_int (ir_quantity item));
               runningTotal' = addNumbers env runningTotal itemTotal
           in case mapItems env products (Suc k) runningTotal' rest of
                Inl e \<Rightarrow> Inl e
              | Inr (items, finalTotal) \<Rightarrow>
                  Inr (\<lparr> oi_id = generateId env k,
                         oi_productId = ir_productId item,
                         oi_product = Some product,
                         oi_quantity = ir_quantity item,
                         oi_price = p_price product \<rparr> # items, finalTotal)))"

definition createOrder :: "Store \<Rightarrow> Env \<Rightarrow> CreateOrderRequest \<Rightarrow> (error + Order) \<times> Store" where
  "createOrder s env orderData =
     (if shouldSimulateError env then (Inl (Error ''Failed to create order''), s)
      else
        (case mapItems env (mockProducts s) 0 0 (co_items orderData) of
           Inl e \<Rightarrow> (Inl e, s)
         | Inr (items, finalTotal) \<Rightarrow>
             (case find (\<lambda>u. u_id u = co_userId orderData) (mockUsers s) of
                None \<Rightarrow> (Inl (Error ''User not found''), s)
              | Some user \<Rightarrow>
                  let newOrder = \<lparr> o_id = generateId env (length (co_items orderData)),
                                   o_userId = co_userId orderData,
                                   o_user = Some user,
                                   o_items = items,
                                   o_total = finalTotal,
                                   o_status = Pending,
                                   o_shippingAddress = co_shippingAddress orderData,
                                   o_createdAt = getCurrentTimestamp env 0,
                                   o_updatedAt = getCurrentTimestamp env 1 \<rparr>
                  in (Inr newOrder, s\<lparr> mockOrders := mockOrders s @ [newOrder] \<rparr>))))"

section \<open>The list operations\<close>

text \<open>
  \<^verbatim>\<open>String.prototype.toLowerCase\<close> on the code units 0 to 255 (the letters A to Z and the
  capital letters of Latin-1), and \<^verbatim>\<open>String.prototype.includes\<close>.
\<close>

definition toLowerCaseChar :: "char \<Rightarrow> char" where
  "toLowerCaseChar c =
     (let n = (of_char c :: nat)
      in if (65 \<le> n \<and> n \<le> 90) \<or> (192 \<le> n \<and> n \<le> 222 \<and> n \<noteq> 215)
         then char_of (n + 32) else c)"

definition toLowerCase :: "string \<Rightarrow> string" where
  "toLowerCase s = map toLowerCaseChar s"

definition js_includes :: "string \<Rightarrow> string \<Rightarrow> bool" where
  "js_includes s t = list_ex (\<lambda>i. take (length t) (drop i s) = t) [0..<Suc (length s - length t)]"

text \<open>
  Property access by name on the three kinds of record. A name that is not a field of
  the record reads \<^verbatim>\<open>undefined\<close>, and so does an optional field that is absent. A
  field of an order that holds an object is held here as the string that \<^verbatim>\<open>>\<close> converts
  it to before it compares: \<^verbatim>\<open>[object Object]\<close> for an object, and for the array of items
  that string once per item, joined by commas.
\<close>

definition roleName :: "Role \<Rightarrow> string" where
  "roleName r = (case r of RoleAdmin \<Rightarrow> ''admin'' | RoleUser \<Rightarrow> ''user'' | RoleModerator \<Rightarrow> ''moderator'')"

definition statusName :: "OrderStatus \<Rightarrow> string" where
  "statusName st =
     (case st of Pending \<Rightarrow> ''pending'' | Processing \<Rightarrow> ''processing'' | Shipped \<Rightarrow> ''shipped''
      | Delivered \<Rightarrow> ''delivered'' | Cancelled \<Rightarrow> ''cancelled'')"

definition userField :: "User \<Rightarrow> string \<Rightarrow> jsval" where
  "userField u f =
     (if f = ''id'' then Str (u_id u)
      else if f = ''name'' then Str (u_name u)
      else if f = ''email'' then Str (u_email u)
      else if f = ''avatar'' then (case u_avatar u of Some v \<Rightarrow> Str v | None \<Rightarrow> Undefined)
      else if f = ''role'' then Str (roleName (u_role u))
      else if f = ''createdAt'' then Str (u_createdAt u)
      else if f = ''updatedAt'' then Str (u_updatedAt u)
      else Undefined)"

definition productField :: "Product \<Rightarrow> string \<Rightarrow> jsval" where
  "productField p f =
     (if f = ''id'' then Str (p_id p)
      else if f = ''name'' then Str (p_name p)
      else if f = ''description'' then Str (p_description p)
      else if f = ''price'' then Num (p_price p)
      else if f = ''category'' then Str (p_category p)
      else if f = ''stock'' then Num (real_of_int (p_stock p))
      else if f = ''imageUrl'' then (case p_imageUrl p of Some v \<Rightarrow> Str v | None \<Rightarrow> Undefined)
      else if f = ''createdAt'' then Str (p_createdAt p)
      else if f = ''updatedAt'' then Str (p_updatedAt p)
      else Undefined)"

definition orderField :: "Order \<Rightarrow> string \<Rightarrow> jsval" where
  "orderField ord f =
     (if f = ''id'' then Str (o_id ord)
      else if f = ''userId'' then Str (o_userId ord)
      else if f = ''user'' then (case o_user ord of Some u \<Rightarrow> Str ''[object Object]'' | None \<Rightarrow> Undefined)
      else if f = ''items'' then Str (join '','' (map (\<lambda>item. ''[object Object]'') (o_items ord)))
      else if f = ''total'' then Num (o_total ord)
      else if f = ''status'' then Str (statusName (o_status ord))
      else if f = ''shippingAddress'' then Str ''[object Object]''
      else if f = ''createdAt'' then Str (o_createdAt ord)
      else if f = ''updatedAt'' then Str (o_updatedAt ord)
      else Undefined)"

text \<open>
  The three list operations. Each returns the result of \<^verbatim>\<open>filterAndPaginate\<close> (the
  constant \<^verbatim>\<open>message\<close> and \<^verbatim>\<open>success: true\<close> of the response are left out) or throws
  the simulated error.
\<close>

definition userFilterFn :: "User \<Rightarrow> string \<Rightarrow> bool" where
  "userFilterFn u s =
     (js_includes (toLowerCase (u_name u)) (toLowerCase s) \<or>
      js_includes (toLowerCase (u_email u)) (toLowerCase s))"

definition getUsers ::
  "((User \<Rightarrow> User \<Rightarrow> int) \<Rightarrow> User list \<Rightarrow> User list) \<Rightarrow> Store \<Rightarrow> Env \<Rightarrow> QueryParams
     \<Rightarrow> error + User Paginated" where
  "getUsers srt s env params =
     (if shouldSimulateError env then Inl (Error ''Failed to fetch users'')
      else Inr (filterAndPaginate srt userField (mockUsers s) params (Some userFilterFn)))"

definition productFilterFn :: "Product \<Rightarrow> string \<Rightarrow> bool" where
  "productFilterFn p s =
     (js_includes (toLowerCase (p_name p)) (toLowerCase s) \<or>
      js_includes (toLowerCase (p_description p)) (toLowerCase s) \<or>
      js_includes (toLowerCase (p_category p)) (toLowerCase s))"

definition getProducts ::
  "((Product \<Rightarrow> Product \<Rightarrow> int) \<Rightarrow> Product list \<Rightarrow> Product list) \<Rightarrow> Store \<Rightarrow> Env \<Rightarrow> QueryParams
     \<Rightarrow> error + Product Paginated" where
  "getProducts srt s env params =
     (if shouldSimulateError env then Inl (Error ''Failed to fetch products'')
      else
        let filteredProducts =
              (if truthy_str (category params)
               then filter (\<lambda>p. toLowerCase (p_category p) = toLowerCase (the (category params)))
                      (mockProducts s)
               else mockProducts s)
        in Inr (filterAndPaginate srt productField filteredProducts params (Some productFilterFn)))"

definition orderFilterFn :: "Order \<Rightarrow> string \<Rightarrow> bool" where
  "orderFilterFn ord s =
     (js_includes (toLowerCase (o_id ord)) (toLowerCase s) \<or>
      (case o_user ord of
         None \<Rightarrow> False
       | Some u \<Rightarrow> js_includes (toLowerCase (u_name u)) (toLowerCase s) \<or>
                  js_includes (toLowerCase (u_email u)) (toLowerCase s)))"

definition getOrders ::
  "((Order \<Rightarrow> Order \<Rightarrow> int) \<Rightarrow> Order list \<Rightarrow> Order list) \<Rightarrow> Store \<Rightarrow> Env \<Rightarrow> QueryParams
     \<Rightarrow> error + Order Paginated" where
  "getOrders srt s env params =
     (if shouldSimulateError env then Inl (Error ''Failed to fetch orders'')
      else
        let filteredOrders =
              (if truthy_str (status params)
               then filter (\<lambda>ord. statusName (o_status ord) = the (status params)) (mockOrders s)
               else mockOrders s)
        in Inr (filterAndPaginate srt orderField filteredOrders params (Some orderFilterFn)))"

text \<open>The products the store starts with (src/lib/mockData.ts).\<close>

definition initialProducts :: "Product list" where
  "initialProducts =
     [\<lparr> p_id = ''1'', p_name = ''Wireless Bluetooth Headphones'',
         p_description = ''High-quality wireless headphones with noise cancellation and 30-hour battery life.'',
         p_price = 199.99, p_category = ''Electronics'', p_stock = 50,
         p_imageUrl = Some ''https://images.unsplash.com/photo-1505740420928-5e560c06d30e?w=300&h=300&fit=crop'',
         p_createdAt = ''2024-01-10T08:00:00Z'', p_updatedAt = ''2024-01-10T08:00:00Z'' \<rparr>,
      \<lparr> p_id = ''2'', p_name = ''Smart Watch Series 5'',
         p_description = ''Advanced smartwatch with health monitoring, GPS, and water resistance.'',
         p_price = 299.99, p_category = ''Electronics'', p_stock = 30,
         p_imageUrl = Some ''https://images.unsplash.com/photo-1523275335684-37898b6baf30?w=300&h=300&fit=crop'',
         p_createdAt = ''2024-01-11T10:30:00Z'', p_updatedAt = ''2024-01-11T10:30:00Z'' \<rparr>,
      \<lparr> p_id = ''3'', p_name = ''Ergonomic Office Chair'',
         p_description = ''Comfortable office chair with lumbar support and adjustable height.'',
         p_price = 249.99, p_category = ''Furniture'', p_stock = 25,
         p_imageUrl = Some ''https://images.unsplash.com/photo-1586023492125-27b2c045efd7?w=300&h=300&fit=crop'',
         p_createdAt = ''2024-01-12T12:00:00Z'', p_updatedAt = ''2024-01-12T12:00:00Z'' \<rparr>,
      \<lparr> p_id = ''4'', p_name = ''Organic Coffee Beans'',
         p_description = ''Premium organic coffee beans sourced from sustainable farms.'',
         p_price = 24.99, p_category = ''Food & Beverage'', p_stock = 100,
         p_imageUrl = Some ''https://images.unsplash.com/photo-1559056199-641a0ac8b55e?w=300&h=300&fit=crop'',
         p_createdAt = ''2024-01-13T14:15:00Z'', p_updatedAt = ''2024-01-13T14:15:00Z'' \<rparr>,
      \<lparr> p_id = ''5'', p_name = ''Yoga Mat Premium'',
         p_description = ''Non-slip yoga mat made from eco-friendly materials.'',
         p_price = 39.99, p_category = ''Sports & Fitness'', p_stock = 75,
         p_imageUrl = Some ''https://images.unsplash.com/photo-1544367567-0f2fcb009e0b?w=300&h=300&fit=crop'',
         p_createdAt = ''2024-01-14T16:30:00Z'', p_updatedAt = ''2024-01-14T16:30:00Z'' \<rparr>]"

definition initialUsers :: "User list" where
  "initialUsers =
     [\<lparr> u_id = ''1'', u_name = ''John Doe'', u_email = ''john.doe@example.com'',
         u_avatar = Some ''https://images.unsplash.com/photo-1472099645785-5658abf4ff4e?w=150&h=150&fit=crop&crop=face'',
         u_role = RoleAdmin,
         u_createdAt = ''2024-01-15T10:00:00Z'', u_updatedAt = ''2024-01-15T10:00:00Z'' \<rparr>,
      \<lparr> u_id = ''2'', u_name = ''Jane Smith'', u_email = ''jane.smith@example.com'',
         u_avatar = Some ''https://images.unsplash.com/photo-1494790108755-2616b612b786?w=150&h=150&fit=crop&crop=face'',
         u_role = RoleUser,
         u_createdAt = ''2024-01-16T14:30:00Z'', u_updatedAt = ''2024-01-16T14:30:00Z'' \<rparr>,
      \<lparr> u_id = ''3'', u_name = ''Mike Johnson'', u_email = ''mike.johnson@example.com'',
         u_avatar = Some ''https://images.unsplash.com/photo-1507003211169-0a1dd7228f2d?w=150&h=150&fit=crop&crop=face'',
         u_role = RoleModerator,
         u_createdAt = ''2024-01-17T09:15:00Z'', u_updatedAt = ''2024-01-17T09:15:00Z'' \<rparr>,
      \<lparr> u_id = ''4'', u_name = ''Sarah Wilson'', u_email = ''sarah.wilson@example.com'',
         u_avatar = Some ''https://images.unsplash.com/photo-1438761681033-6461ffad8d80?w=150&h=150&fit=crop&crop=face'',
         u_role = RoleUser,
         u_createdAt = ''2024-01-18T16:45:00Z'', u_updatedAt = ''2024-01-18T16:45:00Z'' \<rparr>]"

text \<open>Query parameters used in the concrete runs below.\<close>

definition noParams :: QueryParams where
  "noParams = \<lparr> page = None, limit = None, sortBy = None, sortOrder = None, search = None,
                 category = None, status = None \<rparr>"

definition sortByCategory :: QueryParams where
  "sortByCategory = noParams\<lparr> sortBy := Some ''category'' \<rparr>"

definition byPricePage :: "int \<Rightarrow> QueryParams" where
  "byPricePage n = noParams\<lparr> page := Some n, limit := Some 2, sortBy := Some ''price'' \<rparr>"

text \<open>Stores, environments and requests used in the concrete runs below.\<close>

definition exampleStore :: Store where
  "exampleStore = \<lparr> mockUsers = initialUsers, mockProducts = initialProducts, mockOrders = [] \<rparr>"

text \<open>
  \<^verbatim>\<open>Math.random()\<close> returns 0.5: no error is simulated. The arithmetic of this
  environment does not round; the run below that computes a total replaces it by an
  arbitrary addition and multiplication.
\<close>

definition calmEnv :: Env where
  "calmEnv = \<lparr> random = 0.5,
               generateId = (\<lambda>k. if k = 0 then ''k3j9x2m1a'' else if k = 1 then ''q8w7e6r5t'' else ''z1x2c3v4b''),
               getCurrentTimestamp = (\<lambda>k. ''2024-02-01T00:00:00.000Z''),
               addNumbers = (+),
               multiplyNumbers = (*) \<rparr>"

definition withArithmetic :: "Env \<Rightarrow> (real \<Rightarrow> real \<Rightarrow> real) \<Rightarrow> (real \<Rightarrow> real \<Rightarrow> real) \<Rightarrow> Env" where
  "withArithmetic env add mul = env\<lparr> addNumbers := add, multiplyNumbers := mul \<rparr>"

text \<open>\<^verbatim>\<open>Math.random()\<close> returns 0.01: the call throws the simulated error.\<close>

definition faultEnv :: Env where
  "faultEnv = calmEnv\<lparr> random := 0.01 \<rparr>"

definition emptyUserUpdate :: UpdateUserRequest where
  "emptyUserUpdate = \<lparr> uu_name = None, uu_email = None, uu_role = None \<rparr>"

definition exampleAddress :: Address where
  "exampleAddress = \<lparr> a_street = ''123 Main St'', a_city = ''New York'', a_state = ''NY'',
                       a_zipCode = ''10001'', a_country = ''USA'' \<rparr>"

definition exampleOrderRequest :: CreateOrderRequest where
  "exampleOrderRequest =
     \<lparr> co_userId = ''2'',
       co_items = [\<lparr> ir_productId = ''1'', ir_quantity = 1 \<rparr>, \<lparr> ir_productId = ''4'', ir_quantity = 2 \<rparr>],
       co_shippingAddress = exampleAddress \<rparr>"

definition priceChange :: UpdateProductRequest where
  "priceChange = \<lparr> up_name = None, up_description = None, up_price = Some 1, up_category = None,
                    up_stock = None, up_imageUrl = None \<rparr>"

text \<open>An error whose message ends in \<^verbatim>\<open>not found\<close>.\<close>

fun isNotFound :: "error \<Rightarrow> bool" where
  "isNotFound (Error m) = (drop (length m - 9) m = ''not found'')"

text \<open>
  The price of the product that \<^verbatim>\<open>mockProducts.find(p => p.id === productId)\<close> returns
  in a store (0 when there is none).
\<close>

definition priceInStore :: "Store \<Rightarrow> string \<Rightarrow> real" where
  "priceInStore s productId =
     (case find (\<lambda>p. p_id p = productId) (mockProducts s) of Some p \<Rightarrow> p_price p | None \<Rightarrow> 0)"

text \<open>
  The sum of price times quantity as the program forms it: from 0, item by item from
  left to right, each product and each partial sum taken with the engine's operations.
\<close>

definition sumOfItems :: "Env \<Rightarrow> ('a \<Rightarrow> real) \<Rightarrow> ('a \<Rightarrow> int) \<Rightarrow> 'a list \<Rightarrow> real" where
  "sumOfItems env price quantity xs =
     foldl (\<lambda>runningTotal x.
              addNumbers env runningTotal (multiplyNumbers env (price x) (real_of_int (quantity x))))
       0 xs"

definition laterEnv :: Env where
  "laterEnv = calmEnv\<lparr> getCurrentTimestamp := (\<lambda>k. ''2024-03-05T12:30:00.000Z'') \<rparr>"

definition newUserRequest :: CreateUserRequest where
  "newUserRequest = \<lparr> cu_name = ''Alice Brown'', cu_email = ''alice.brown@example.com'', cu_role = None \<rparr>"

section \<open>The order form: \<^verbatim>\<open>codOrderService\<close> (src/services/api.ts)\<close>

record CODFormData =
  f_name :: string
  f_phone :: string
  f_email :: "string option"
  f_address :: string
  f_city :: string
  f_state :: string
  f_pincode :: string
  f_quantity :: int
  f_variant :: "string option"

record CODProductInfo =
  cp_name :: string
  cp_price :: real
  cp_variant :: "string option"

record CODOrderRequest =
  landingPageId :: string
  formData :: CODFormData
  req_productInfo :: CODProductInfo

record SubmitResult =
  orderId :: string
  success :: bool
  sr_message :: string

text \<open>
  The character classes of the three regular expressions, on the code units 0 to
  255: \<^verbatim>\<open>[0-9]\<close>, and \<^verbatim>\<open>[^\s@]\<close> (white space is tab, line feed, vertical tab, form
  feed, carriage return, space and the no-break space).
\<close>

definition isDigit :: "char \<Rightarrow> bool" where
  "isDigit c = (48 \<le> (of_char c :: nat) \<and> (of_char c :: nat) \<le> 57)"

definition isSpace :: "char \<Rightarrow> bool" where
  "isSpace c = ((of_char c :: nat) \<in> {9, 10, 11, 12, 13, 32, 160})"

definition notSpaceOrAt :: "char \<Rightarrow> bool" where
  "notSpaceOrAt c = (\<not> isSpace c \<and> c \<noteq> CHR ''@'')"

text \<open>\<^verbatim>\<open>/^[0-9]{n}$/.test(s)\<close>: exactly \<open>n\<close> digits.\<close>

definition testDigits :: "nat \<Rightarrow> string \<Rightarrow> bool" where
  "testDigits n s = (length s = n \<and> list_all isDigit s)"

text \<open>
  \<^verbatim>\<open>/^[^\s@]+@[^\s@]+\.[^\s@]+$/.test(s)\<close>: there are a position \<open>i\<close> of an \<^verbatim>\<open>@\<close> and a
  later position \<open>j\<close> of a dot such that the three pieces before \<open>i\<close>, between \<open>i\<close>
  and \<open>j\<close>, and after \<open>j\<close> are not empty and hold neither white space nor \<^verbatim>\<open>@\<close>.
\<close>

definition testEmail :: "string \<Rightarrow> bool" where
  "testEmail s =
     list_ex (\<lambda>i. list_ex (\<lambda>j.
         s ! i = CHR ''@'' \<and> s ! j = CHR ''.''
       \<and> 0 < i \<and> i + 1 < j \<and> j + 1 < length s
       \<and> list_all notSpaceOrAt (take i s)
       \<and> list_all notSpaceOrAt (take (j - (i + 1)) (drop (i + 1) s))
       \<and> list_all notSpaceOrAt (drop (j + 1) s)) [0..<length s]) [0..<length s]"

text \<open>
  \<^verbatim>\<open>validateCODForm\<close>: eight checks in a row, each pushing its message on \<^verbatim>\<open>errors\<close>,
  and one \<^verbatim>\<open>throw\<close> at the end when \<^verbatim>\<open>errors\<close> is not empty. \<^verbatim>\<open>!formData.name\<close> is true
  of the empty string, \<^verbatim>\<open>!formData.quantity\<close> of 0, and \<^verbatim>\<open>formData.email &&\<close> is
  false of an absent or empty email.
\<close>

definition validateCODForm :: "CODFormData \<Rightarrow> error + unit" where
  "validateCODForm fd =
     (let errors0 = [];
          errors1 = (if f_name fd = [] \<or> length (f_name fd) < 2
                     then errors0 @ [''Name must be at least 2 characters long''] else errors0);
          errors2 = (if f_phone fd = [] \<or> \<not> testDigits 10 (f_phone fd)
                     then errors1 @ [''Phone number must be 10 digits''] else errors1);
          errors3 = (if truthy_str (f_email fd) \<and> \<not> testEmail (the (f_email fd))
                     then errors2 @ [''Invalid email format''] else errors2);
          errors4 = (if f_address fd = [] \<or> length (f_address fd) < 10
                     then errors3 @ [''Address must be at least 10 characters long''] else errors3);
          errors5 = (if f_city fd = [] \<or> length (f_city fd) < 2
                     then errors4 @ [''City is required''] else errors4);
          errors6 = (if f_state fd = [] \<or> length (f_state fd) < 2
                     then errors5 @ [''State is required''] else errors5);
          errors7 = (if f_pincode fd = [] \<or> \<not> testDigits 6 (f_pincode fd)
                     then errors6 @ [''Pincode must be 6 digits''] else errors6);
          errors8 = (if f_quantity fd = 0 \<or> f_quantity fd < 1 \<or> f_quantity fd > 10
                     then errors7 @ [''Quantity must be between 1 and 10''] else errors7)
      in if length errors8 > 0 then Inl (Error (join '', '' errors8)) else Inr ())"

text \<open>
  \<^verbatim>\<open>Number.prototype.toString(36)\<close> of a non-negative integer, and
  \<^verbatim>\<open>String.prototype.toUpperCase\<close> on the letters a to z (the only letters in the strings
  it is applied to here).
\<close>

definition digit36 :: "nat \<Rightarrow> char" where
  "digit36 d = ''0123456789abcdefghijklmnopqrstuvwxyz'' ! d"

function toString36 :: "nat \<Rightarrow> string" where
  "toString36 n = (if n < 36 then [digit36 n] else toString36 (n div 36) @ [digit36 (n mod 36)])"
  by pat_completeness auto
termination
  by (relation "measure id") auto

declare toString36.simps [simp del]

definition toUpperCaseChar :: "char \<Rightarrow> char" where
  "toUpperCaseChar c =
     (let n = (of_char c :: nat) in if 97 \<le> n \<and> n \<le> 122 then char_of (n - 32) else c)"

definition toUpperCase :: "string \<Rightarrow> string" where
  "toUpperCase s = map toUpperCaseChar s"

text \<open>
  What \<^verbatim>\<open>generateOrderId\<close> reads from outside: \<^verbatim>\<open>Date.now()\<close>, and the digits that
  \<^verbatim>\<open>Math.random().toString(36)\<close> prints after \<^verbatim>\<open>0.\<close> (none when the random number is 0,
  which prints as \<^verbatim>\<open>0\<close>). The engine prints as many base-36 digits as the number
  needs: eleven or so for most doubles, one for 0.5.
\<close>

record IdEnv =
  dateNow :: nat
  randomDigits :: string

definition randomToString36 :: "string \<Rightarrow> string" where
  "randomToString36 digits = (if digits = [] then ''0'' else ''0.'' @ digits)"

text \<open>\<^verbatim>\<open>String.prototype.substr(start, length)\<close> for a start that is not negative.\<close>

definition substr :: "string \<Rightarrow> nat \<Rightarrow> nat \<Rightarrow> string" where
  "substr s start len = take len (drop start s)"

definition generateOrderId :: "IdEnv \<Rightarrow> string" where
  "generateOrderId env =
     (let timestamp = toString36 (dateNow env);
          random' = substr (randomToString36 (randomDigits env)) 2 5
      in toUpperCase (''COD-'' @ timestamp @ ''-'' @ random'))"

text \<open>
  \<^verbatim>\<open>submitOrder\<close>. \<^verbatim>\<open>processOrder\<close> waits and writes to the console; it has no result and
  does not throw.
\<close>

definition submitOrder :: "IdEnv \<Rightarrow> CODOrderRequest \<Rightarrow> SubmitResult" where
  "submitOrder env request =
     (case validateCODForm (formData request) of
        Inl (Error msg) \<Rightarrow> \<lparr> orderId = '''', success = False, sr_message = msg \<rparr>
      | Inr _ \<Rightarrow>
          \<lparr> orderId = generateOrderId env, success = True,
            sr_message = ''Order placed successfully! You will receive a confirmation call within 2 hours.'' \<rparr>)"

text \<open>
  The format \<^verbatim>\<open>COD-[0-9A-Z]+-[0-9A-Z]{5}\<close>, as a match of the whole string: the prefix,
  one or more digits or capital letters, a hyphen, and exactly five digits or capital
  letters.
\<close>

definition isDigitOrUpper :: "char \<Rightarrow> bool" where
  "isDigitOrUpper c = (isDigit c \<or> (65 \<le> (of_char c :: nat) \<and> (of_char c :: nat) \<le> 90))"

definition orderIdFormat :: "string \<Rightarrow> bool" where
  "orderIdFormat s =
     (let body = drop 4 s;
          stamp = take (length body - 6) body;
          rest = drop (length body - 6) body
      in take 4 s = ''COD-'' \<and> stamp \<noteq> [] \<and> list_all isDigitOrUpper stamp
         \<and> length rest = 6 \<and> hd rest = CHR ''-'' \<and> list_all isDigitOrUpper (tl rest))"

text \<open>The fully valid submission of the specification, and two invalid ones.\<close>

definition validForm :: CODFormData where
  "validForm = \<lparr> f_name = ''Al Amin'', f_phone = ''9876543210'', f_email = None,
                 f_address = ''123 Long Enough Address'', f_city = ''Pune'', f_state = ''MH'',
                 f_pincode = ''411001'', f_quantity = 3, f_variant = None \<rparr>"

definition validRequest :: CODOrderRequest where
  "validRequest = \<lparr> landingPageId = ''lp_1700000000000_abc123xyz'', formData = validForm,
                    req_productInfo = \<lparr> cp_name = ''Yoga Mat Premium'', cp_price = 39.99, cp_variant = None \<rparr> \<rparr>"

definition halfEnv :: IdEnv where
  "halfEnv = \<lparr> dateNow = 1700000000000, randomDigits = ''i'' \<rparr>"

definition usualEnv :: IdEnv where
  "usualEnv = \<lparr> dateNow = 1700000000000, randomDigits = ''4fzyo82mvyr'' \<rparr>"

text \<open>
  The rule table of the specification, read as one entry per field: whether the field
  violates its rule, and the message of the field. \<open>violatedMessages\<close> are the
  messages of the violated fields, in the order of the table.
\<close>

definition fieldRules :: "CODFormData \<Rightarrow> (bool \<times> string) list" where
  "fieldRules fd =
     [(length (f_name fd) < 2, ''Name must be at least 2 characters long''),
      (\<not> testDigits 10 (f_phone fd), ''Phone number must be 10 digits''),
      ((case f_email fd of None \<Rightarrow> False | Some e \<Rightarrow> e \<noteq> [] \<and> \<not> testEmail e), ''Invalid email format''),
      (length (f_address fd) < 10, ''Address must be at least 10 characters long''),
      (length (f_city fd) < 2, ''City is required''),
      (length (f_state fd) < 2, ''State is required''),
      (\<not> testDigits 6 (f_pincode fd), ''Pincode must be 6 digits''),
      (f_quantity fd < 1 \<or> 10 < f_quantity fd, ''Quantity must be between 1 and 10'')]"

definition violatedMessages :: "CODFormData \<Rightarrow> string list" where
  "violatedMessages fd = map snd (filter fst (fieldRules fd))"

definition badPhoneAndQuantity :: CODFormData where
  "badPhoneAndQuantity = validForm\<lparr> f_phone := ''12345'', f_quantity := 11 \<rparr>"

definition zeroEnv :: IdEnv where
  "zeroEnv = \<lparr> dateNow = 1700000000000, randomDigits = [] \<rparr>"

text \<open>A digit of base 36 as \<^verbatim>\<open>toString(36)\<close> prints it: 0 to 9 or a to z.\<close>

definition isBase36 :: "char \<Rightarrow> bool" where
  "isBase36 c = (isDigit c \<or> (97 \<le> (of_char c :: nat) \<and> (of_char c :: nat) \<le> 122))"

section \<open>The generation pipeline (src/services/api.ts and the service adapters)\<close>

text \<open>
  A value that \<^verbatim>\<open>JSON.parse\<close> returns. The replies of the language model are parsed and
  passed on unchecked, so a classification, a theme and the content are such values at
  run time, whatever their declared types.
\<close>

datatype json =
    JNull
  | JBool bool
  | JNumber real
  | JString string
  | JArray "json list"
  | JObject "(string \<times> json) list"

record ProductInfo =
  pi_name :: string
  pi_description :: string
  pi_price :: real
  pi_originalPrice :: "real option"
  pi_images :: "string list"
  pi_category :: string
  pi_brand :: "string option"
  pi_features :: "string list"
  pi_specifications :: "(string \<times> string) list"
  pi_rating :: "real option"
  pi_reviews :: "real option"

record ProcessedImage =
  im_original :: string
  im_backgroundRemoved :: string
  im_cloudinaryUrl :: string
  im_optimizedUrl :: string
  im_thumbnailUrl :: string

datatype UrgencyLevel = Low | Medium | High

record CountdownTimer =
  ct_endTime :: int
  ct_title :: string
  ct_urgencyLevel :: UrgencyLevel

record ValidationRule =
  vr_required :: bool
  vr_minLength :: "nat option"
  vr_pattern :: "(string \<Rightarrow> bool) option"
  vr_min :: "int option"
  vr_max :: "int option"

record CODFormConfig =
  cf_enabled :: bool
  cf_fields :: "string list"
  cf_validationRules :: "(string \<times> ValidationRule) list"

record LandingPageData =
  lp_productInfo :: ProductInfo
  lp_classification :: json
  lp_theme :: json
  lp_content :: json
  lp_images :: "ProcessedImage list"
  lp_countdown :: CountdownTimer
  lp_codForm :: CODFormConfig

record GenerationProgress =
  gp_step :: string
  gp_progress :: int
  gp_message :: string
  gp_completed :: bool
  gp_error :: "string option"

record Customizations =
  cz_colorPreference :: "string option"
  cz_stylePreference :: "string option"
  cz_targetAudience :: "string option"
  cz_urgencyLevel :: "UrgencyLevel option"
  cz_includeCountdown :: "bool option"
  cz_countdownHours :: "int option"

record GenerateLandingPageRequest =
  productUrl :: string
  customizations :: "Customizations option"

text \<open>
  What one run of the pipeline meets outside the program:
  \<^item> \<open>browseAi\<close>: how the \<^verbatim>\<open>try\<close> block of \<^verbatim>\<open>browseAiService.scrapeProductPage\<close> ends (the
    request to Browse AI, the polling of the task and the parsing of its result);
  \<^item> \<open>serpApi k\<close>: how the \<^verbatim>\<open>try\<close> block of the call number \<open>k\<close> of
    \<^verbatim>\<open>serpApiService.extractProductInfo\<close> ends (the search and the reading of its first
    result);
  \<^item> \<open>groqChat k\<close>: how the call number \<open>k\<close> of \<^verbatim>\<open>groqService.chatCompletion\<close> ends, with
    the text of the reply when it succeeds;
  \<^item> \<open>jsonParse\<close>: \<^verbatim>\<open>JSON.parse\<close>, with \<open>None\<close> for a syntax error;
  \<^item> \<open>removeBg k\<close> and \<open>cloudinary k\<close>: for image number \<open>k\<close>, how the request to
    remove.bg ends, and how fetching and uploading the result ends, with the
    \<^verbatim>\<open>public_id\<close> and the \<^verbatim>\<open>secure_url\<close> of the upload;
  \<^item> \<open>cloudName\<close>: the configured Cloudinary cloud name; \<open>clock\<close>: the time, in
    milliseconds.
\<close>

record World =
  browseAi :: "error + ProductInfo"
  serpApi :: "nat \<Rightarrow> error + ProductInfo"
  groqChat :: "nat \<Rightarrow> error + string"
  jsonParse :: "string \<Rightarrow> json option"
  removeBg :: "nat \<Rightarrow> error + string"
  cloudinary :: "nat \<Rightarrow> error + (string \<times> string)"
  cloudName :: string
  clock :: int

text \<open>
  \<^verbatim>\<open>serpApiService.extractProductInfo\<close>: whatever goes wrong in its \<^verbatim>\<open>try\<close> block, it
  throws the same error.
\<close>

definition serp_extractProductInfo :: "World \<Rightarrow> nat \<Rightarrow> error + ProductInfo" where
  "serp_extractProductInfo w k =
     (case serpApi w k of
        Inr productInfo \<Rightarrow> Inr productInfo
      | Inl _ \<Rightarrow> Inl (Error ''Failed to extract product information''))"

text \<open>
  \<^verbatim>\<open>browseAiService.scrapeProductPage\<close>: its own \<^verbatim>\<open>catch\<close> block returns
  \<^verbatim>\<open>serpApiService.extractProductInfo(url)\<close>. This is the first call of that function
  in a run (number 0), and the scraper fails only when this call fails too.
\<close>

definition scrapeProductPage :: "World \<Rightarrow> string \<Rightarrow> error + ProductInfo" where
  "scrapeProductPage w url =
     (case browseAi w of
        Inr productInfo \<Rightarrow> Inr productInfo
      | Inl _ \<Rightarrow> serp_extractProductInfo w 0)"

text \<open>
  \<^verbatim>\<open>LandingPageGenerator.extractProductInfo\<close>: when the scraper throws, the second call
  (number 1) of \<^verbatim>\<open>serpApiService.extractProductInfo\<close>.
\<close>

definition extractProductInfo :: "World \<Rightarrow> string \<Rightarrow> error + ProductInfo" where
  "extractProductInfo w url =
     (case scrapeProductPage w url of
        Inr productInfo \<Rightarrow> Inr productInfo
      | Inl _ \<Rightarrow> serp_extractProductInfo w 1)"

text \<open>
  A template literal \<^verbatim>\<open>`... ${c.p} ...`\<close> reads the property \<open>p\<close> of \<open>c\<close> and converts
  the value to a string, one substitution after the other. Either step can throw a
  \<^verbatim>\<open>TypeError\<close> (the messages are those of V8):
  \<^item> reading a property of \<^verbatim>\<open>null\<close> throws; reading one of any other parsed value does
    not, and gives \<^verbatim>\<open>undefined\<close> when the value is not an object or has no such
    property (an object is held as the list of its own properties, each name once);
  \<^item> converting an object to a string calls its \<^verbatim>\<open>toString\<close>, then its \<^verbatim>\<open>valueOf\<close>. A
    parsed object inherits both, and the inherited \<^verbatim>\<open>toString\<close> returns
    \<^verbatim>\<open>[object Object]\<close>; if it has a property of its own named \<^verbatim>\<open>toString\<close>, which is
    never a function, only \<^verbatim>\<open>valueOf\<close> is left, which does not return a primitive value,
    and the conversion throws. Converting an array converts each of its elements that
    is not \<^verbatim>\<open>null\<close>; every other value converts.
\<close>

definition nullPropertyError :: "string \<Rightarrow> error" where
  "nullPropertyError p =
     Error (''Cannot read properties of null (reading '' @ [CHR 0x27] @ p @ [CHR 0x27] @ '')'')"

definition conversionError :: error where
  "conversionError = Error ''Cannot convert object to primitive value''"

fun stringifies :: "json \<Rightarrow> bool" where
  "stringifies (JArray xs) = list_all stringifies xs"
| "stringifies (JObject fs) = (map_of fs ''toString'' = None)"
| "stringifies _ = True"

text \<open>
  The error, if any, of interpolating the properties \<open>ps\<close> of \<open>c\<close> in this order.
\<close>

fun interpolationError :: "json \<Rightarrow> string list \<Rightarrow> error option" where
  "interpolationError c [] = None"
| "interpolationError c (p # ps) =
     (case c of
        JNull \<Rightarrow> Some (nullPropertyError p)
      | JObject fs \<Rightarrow>
          (case map_of fs p of
             Some v \<Rightarrow> (if stringifies v then interpolationError c ps else Some conversionError)
           | None \<Rightarrow> interpolationError c ps)
      | _ \<Rightarrow> interpolationError c ps)"

text \<open>
  \<^verbatim>\<open>groqService.classifyProduct\<close>. \<open>chat\<close> is how its call of \<^verbatim>\<open>chatCompletion\<close> ends: an
  error of that call is not caught, a reply that does not parse gives the fallback.
\<close>

definition fallbackClassification :: "ProductInfo \<Rightarrow> json" where
  "fallbackClassification productInfo =
     JObject [(''category'', JString ''other''),
              (''subcategory'', JString ''general''),
              (''targetAudience'', JString ''general''),
              (''priceRange'', JString (if pi_price productInfo < 50 then ''budget''
                                        else if pi_price productInfo < 200 then ''mid-range''
                                        else ''premium''))]"

definition classifyProduct ::
  "(string \<Rightarrow> json option) \<Rightarrow> (error + string) \<Rightarrow> ProductInfo \<Rightarrow> error + json" where
  "classifyProduct parse chat productInfo =
     (case chat of
        Inl e \<Rightarrow> Inl e
      | Inr response \<Rightarrow>
          (case parse response of
             Some v \<Rightarrow> Inr v
           | None \<Rightarrow> Inr (fallbackClassification productInfo)))"

definition fallbackTheme :: json where
  "fallbackTheme =
     JObject [(''name'', JString ''Default Theme''),
              (''colorPalette'',
                 JObject [(''primary'', JString ''#3B82F6''), (''secondary'', JString ''#1E40AF''),
                          (''accent'', JString ''#F59E0B''), (''background'', JString ''#FFFFFF''),
                          (''text'', JString ''#1F2937''), (''textLight'', JString ''#6B7280'')]),
              (''fonts'',
                 JObject [(''heading'', JString ''Inter''), (''body'', JString ''Inter''),
                          (''accent'', JString ''Inter'')]),
              (''style'', JString ''modern'')]"

text \<open>
  \<^verbatim>\<open>groqService.generateDesignTheme\<close>: the prompt interpolates four properties of the
  classification before the request is made.
\<close>

definition themePromptProperties :: "string list" where
  "themePromptProperties = [''category'', ''subcategory'', ''targetAudience'', ''priceRange'']"

definition generateDesignTheme ::
  "(string \<Rightarrow> json option) \<Rightarrow> (error + string) \<Rightarrow> json \<Rightarrow> error + json" where
  "generateDesignTheme parse chat classification =
     (case interpolationError classification themePromptProperties of
        Some e \<Rightarrow> Inl e
      | None \<Rightarrow>
          (case chat of
             Inl e \<Rightarrow> Inl e
           | Inr response \<Rightarrow>
               (case parse response of
                  Some v \<Rightarrow> Inr v
                | None \<Rightarrow> Inr fallbackTheme)))"

definition fallbackContent :: "ProductInfo \<Rightarrow> json" where
  "fallbackContent productInfo =
     JObject [(''headline'', JString (''Amazing '' @ pi_name productInfo)),
              (''subheadline'', JString ''Get yours today with fast delivery!''),
              (''description'', JString (pi_description productInfo)),
              (''benefits'', JArray [JString ''High Quality'', JString ''Fast Shipping'',
                                     JString ''Great Value'', JString ''Customer Support'']),
              (''upsellCopy'', JString ''Limited time offer - get yours now!''),
              (''urgencyText'', JString ''Only few left in stock!''),
              (''ctaText'', JString ''Order Now''),
              (''testimonials'',
                 JArray [JObject [(''name'', JString ''John D.''), (''rating'', JNumber 5),
                                  (''text'', JString ''Great product!''), (''verified'', JBool True)],
                         JObject [(''name'', JString ''Sarah M.''), (''rating'', JNumber 5),
                                  (''text'', JString ''Highly recommend!''), (''verified'', JBool True)],
                         JObject [(''name'', JString ''Mike R.''), (''rating'', JNumber 4),
                                  (''text'', JString ''Good value for money.''), (''verified'', JBool True)]]),
              (''faq'',
                 JArray [JObject [(''question'', JString ''How long is shipping?''),
                                  (''answer'', JString ''3-5 business days.'')],
                         JObject [(''question'', JString ''What is your return policy?''),
                                  (''answer'', JString ''30-day money back guarantee.'')]])]"

text \<open>
  \<^verbatim>\<open>groqService.generateContent\<close>: the prompt interpolates the name, the description and
  the price of the product, which are strings and a number, and then two properties of
  the classification.
\<close>

definition contentPromptProperties :: "string list" where
  "contentPromptProperties = [''category'', ''targetAudience'']"

definition generateContent ::
  "(string \<Rightarrow> json option) \<Rightarrow> (error + string) \<Rightarrow> ProductInfo \<Rightarrow> json \<Rightarrow> error + json" where
  "generateContent parse chat productInfo classification =
     (case interpolationError classification contentPromptProperties of
        Some e \<Rightarrow> Inl e
      | None \<Rightarrow>
          (case chat of
             Inl e \<Rightarrow> Inl e
           | Inr response \<Rightarrow>
               (case parse response of
                  Some v \<Rightarrow> Inr v
                | None \<Rightarrow> Inr (fallbackContent productInfo))))"

text \<open>
  \<^verbatim>\<open>removeBgService.removeBackground\<close> returns the image it was given when the request
  fails. \<^verbatim>\<open>imageProcessingService.processProductImages\<close> catches every error of an image
  and puts the original address in all five fields.
\<close>

definition removeBackground :: "World \<Rightarrow> nat \<Rightarrow> string \<Rightarrow> string" where
  "removeBackground w k imageUrl = (case removeBg w k of Inr objectUrl \<Rightarrow> objectUrl | Inl _ \<Rightarrow> imageUrl)"

definition generateOptimizedUrl :: "World \<Rightarrow> string \<Rightarrow> string \<Rightarrow> string" where
  "generateOptimizedUrl w publicId transformations =
     ''https://res.cloudinary.com/'' @ cloudName w @ ''/image/upload/'' @ transformations @ ''/'' @ publicId"

definition generateThumbnailUrl :: "World \<Rightarrow> string \<Rightarrow> string" where
  "generateThumbnailUrl w publicId = generateOptimizedUrl w publicId ''c_thumb,w_200,h_200,q_auto,f_auto''"

fun processProductImages :: "World \<Rightarrow> nat \<Rightarrow> string list \<Rightarrow> ProcessedImage list" where
  "processProductImages w k [] = []"
| "processProductImages w k (imageUrl # rest) =
     (let backgroundRemovedUrl = removeBackground w k imageUrl
      in (case cloudinary w k of
            Inr (publicId, secureUrl) \<Rightarrow>
              \<lparr> im_original = imageUrl,
                im_backgroundRemoved = backgroundRemovedUrl,
                im_cloudinaryUrl = secureUrl,
                im_optimizedUrl = generateOptimizedUrl w publicId ''c_fill,w_800,h_600,q_auto,f_auto'',
                im_thumbnailUrl = generateThumbnailUrl w publicId \<rparr>
          | Inl _ \<Rightarrow>
              \<lparr> im_original = imageUrl, im_backgroundRemoved = imageUrl, im_cloudinaryUrl = imageUrl,
                im_optimizedUrl = imageUrl, im_thumbnailUrl = imageUrl \<rparr>)
         # processProductImages w (Suc k) rest)"

text \<open>
  \<^verbatim>\<open>createCountdownTimer\<close>. The end time is held in milliseconds; \<^verbatim>\<open>setHours\<close> works on
  the local clock, and a change of the local offset in between is outside the model.
\<close>

definition createCountdownTimer :: "World \<Rightarrow> Customizations option \<Rightarrow> CountdownTimer" where
  "createCountdownTimer w cz =
     (let hours = or_default (case cz of None \<Rightarrow> None | Some c \<Rightarrow> cz_countdownHours c) 24;
          endTime = clock w + hours * 3600000;
          urgencyLevel = (case (case cz of None \<Rightarrow> None | Some c \<Rightarrow> cz_urgencyLevel c) of
                            None \<Rightarrow> Medium | Some u \<Rightarrow> u)
      in \<lparr> ct_endTime = endTime,
           ct_title = (case urgencyLevel of
                         Low \<Rightarrow> ''Special Offer Ends Soon''
                       | Medium \<Rightarrow> ''Limited Time Offer''
                       | High \<Rightarrow> ''FLASH SALE - Ends Today!''),
           ct_urgencyLevel = urgencyLevel \<rparr>)"

text \<open>
  \<^verbatim>\<open>createCODForm\<close>: the rules handed to the page. A pattern is held as the test of its
  regular expression.
\<close>

definition fieldRule :: "bool \<Rightarrow> ValidationRule" where
  "fieldRule required' = \<lparr> vr_required = required', vr_minLength = None, vr_pattern = None,
                      vr_min = None, vr_max = None \<rparr>"

definition createCODForm :: CODFormConfig where
  "createCODForm =
     \<lparr> cf_enabled = True,
       cf_fields = [''name'', ''phone'', ''email'', ''address'', ''city'', ''state'', ''pincode'', ''quantity''],
       cf_validationRules =
         [(''name'', (fieldRule True)\<lparr> vr_minLength := Some 2 \<rparr>),
          (''phone'', (fieldRule True)\<lparr> vr_pattern := Some (testDigits 10) \<rparr>),
          (''email'', (fieldRule False)\<lparr> vr_pattern := Some testEmail \<rparr>),
          (''address'', (fieldRule True)\<lparr> vr_minLength := Some 10 \<rparr>),
          (''city'', (fieldRule True)\<lparr> vr_minLength := Some 2 \<rparr>),
          (''state'', (fieldRule True)\<lparr> vr_minLength := Some 2 \<rparr>),
          (''pincode'', (fieldRule True)\<lparr> vr_pattern := Some (testDigits 6) \<rparr>),
          (''quantity'', (fieldRule True)\<lparr> vr_min := Some 1, vr_max := Some 10 \<rparr>)] \<rparr>"

text \<open>
  \<^verbatim>\<open>updateProgress\<close>: with a callback, one more progress report; without, nothing. A
  run returns the reports it has made, in the order it made them. The callback itself
  is taken not to throw (the program passes one that stores the report).
\<close>

definition updateProgress ::
  "bool \<Rightarrow> GenerationProgress list \<Rightarrow> string \<Rightarrow> int \<Rightarrow> string \<Rightarrow> string option
     \<Rightarrow> GenerationProgress list" where
  "updateProgress hasCallback reports step progress msg err =
     (if hasCallback
      then reports @ [\<lparr> gp_step = step, gp_progress = progress, gp_message = msg,
                         gp_completed = (progress = 100), gp_error = err \<rparr>]
      else reports)"

text \<open>The \<^verbatim>\<open>catch\<close> block of \<^verbatim>\<open>generateLandingPage\<close>: report the error, throw it again.\<close>

definition generationFailed ::
  "bool \<Rightarrow> GenerationProgress list \<Rightarrow> error \<Rightarrow> GenerationProgress list \<times> (error + LandingPageData)" where
  "generationFailed hasCallback reports e =
     (case e of Error errorMessage \<Rightarrow>
        (updateProgress hasCallback reports ''error'' 0 ''Generation failed'' (Some errorMessage), Inl e))"

definition generateLandingPage ::
  "bool \<Rightarrow> World \<Rightarrow> GenerateLandingPageRequest
     \<Rightarrow> GenerationProgress list \<times> (error + LandingPageData)" where
  "generateLandingPage cb w request =
     (let r0 = updateProgress cb [] ''starting'' 0 ''Starting landing page generation...'' None;
          r1 = updateProgress cb r0 ''extracting'' 10 ''Extracting product information from URL...'' None
      in case extractProductInfo w (productUrl request) of
           Inl e \<Rightarrow> generationFailed cb r1 e
         | Inr productInfo \<Rightarrow>
      (let r2 = updateProgress cb r1 ''classifying'' 25
                  ''Classifying product type and target audience...'' None
       in case classifyProduct (jsonParse w) (groqChat w 0) productInfo of
            Inl e \<Rightarrow> generationFailed cb r2 e
          | Inr classification \<Rightarrow>
      (let r3 = updateProgress cb r2 ''designing'' 40
                  ''Generating design theme and color palette...'' None
       in case generateDesignTheme (jsonParse w) (groqChat w 1) classification of
            Inl e \<Rightarrow> generationFailed cb r3 e
          | Inr theme \<Rightarrow>
      (let r4 = updateProgress cb r3 ''content'' 55
                  ''Generating persuasive content and copy...'' None
       in case generateContent (jsonParse w) (groqChat w 2) productInfo classification of
            Inl e \<Rightarrow> generationFailed cb r4 e
          | Inr content \<Rightarrow>
      (let r5 = updateProgress cb r4 ''images'' 70 ''Processing product images...'' None;
           processedImages = processProductImages w 0 (pi_images productInfo);
           r6 = updateProgress cb r5 ''countdown'' 85 ''Setting up countdown timer...'' None;
           countdown = createCountdownTimer w (customizations request);
           r7 = updateProgress cb r6 ''form'' 95 ''Configuring COD form...'' None;
           codForm = createCODForm;
           r8 = updateProgress cb r7 ''completed'' 100 ''Landing page generated successfully!'' None
       in (r8, Inr \<lparr> lp_productInfo = productInfo,
                       lp_classification = classification,
                       lp_theme = theme,
                       lp_content = content,
                       lp_images = processedImages,
                       lp_countdown = countdown,
                       lp_codForm = codForm \<rparr>))))))"

text \<open>
  Worlds and a request used in the concrete runs below. \<open>exampleParse\<close> agrees with
  \<^verbatim>\<open>JSON.parse\<close> on the two replies that occur in them: the text \<^verbatim>\<open>null\<close> parses to
  \<^verbatim>\<open>null\<close>, and a sentence of prose is a syntax error.
\<close>

definition serpProduct :: ProductInfo where
  "serpProduct =
     \<lparr> pi_name = ''Yoga Mat Premium - Buy Online'',
       pi_description = ''Premium non-slip yoga mat for 39.99 with free delivery'',
       pi_price = 39.99, pi_originalPrice = None, pi_images = [], pi_category = ''other'',
       pi_brand = None, pi_features = [], pi_specifications = [], pi_rating = None,
       pi_reviews = None \<rparr>"

definition exampleParse :: "string \<Rightarrow> json option" where
  "exampleParse s = (if s = ''null'' then Some JNull else None)"

definition proseReply :: string where
  "proseReply = ''Sure! Here is the classification you asked for.''"

text \<open>
  Browse AI fails, the first call of the search extractor fails, the second succeeds;
  every reply of the language model is prose.
\<close>

definition fallbackWorld :: World where
  "fallbackWorld =
     \<lparr> browseAi = Inl (Error ''Browse AI error: Unauthorized''),
       serpApi = (\<lambda>k. if k = 0 then Inl (Error ''SerpAPI error: Too Many Requests'') else Inr serpProduct),
       groqChat = (\<lambda>k. Inr proseReply),
       jsonParse = exampleParse,
       removeBg = (\<lambda>k. Inl (Error ''Remove.bg API error: Payment Required'')),
       cloudinary = (\<lambda>k. Inl (Error ''Cloudinary upload error: Bad Request'')),
       cloudName = ''demo'',
       clock = 1700000000000 \<rparr>"


text \<open>
  The same, with a reply to the classification that parses to an object whose
  \<^verbatim>\<open>category\<close> has properties of its own named \<^verbatim>\<open>toString\<close> and \<^verbatim>\<open>valueOf\<close>.
\<close>

definition shadowedReply :: string where
  \<open>shadowedReply = ''{"category":{"toString":null,"valueOf":null}}''\<close>

definition shadowedClassification :: json where
  "shadowedClassification =
     JObject [(''category'', JObject [(''toString'', JNull), (''valueOf'', JNull)])]"

definition shadowedReplyWorld :: World where
  "shadowedReplyWorld =
     fallbackWorld\<lparr> groqChat := (\<lambda>k. Inr shadowedReply),
                    jsonParse := (\<lambda>s. if s = shadowedReply then Some shadowedClassification
                                      else exampleParse s) \<rparr>"

text \<open>Browse AI fails and both calls of the search extractor fail.\<close>

definition noExtractionWorld :: World where
  "noExtractionWorld = fallbackWorld\<lparr> serpApi := (\<lambda>k. Inl (Error ''SerpAPI error: Too Many Requests'')) \<rparr>"

definition exampleRequest :: GenerateLandingPageRequest where
  "exampleRequest = \<lparr> productUrl = ''https://www.amazon.in/dp/XYZ'', customizations = None \<rparr>"

text \<open>The progress values of the nine stages, in the order of the stages.\<close>

definition stageProgress :: "int list" where
  "stageProgress = [0, 10, 25, 40, 55, 70, 85, 95, 100]"

text \<open>
  No stage after the extraction throws: the three calls of the language model return a
  reply, and when the reply of the classification parses, the prompt of the design
  theme can be built from the parsed value (it is not \<^verbatim>\<open>null\<close>, and each property the
  prompt interpolates converts to a string).
\<close>

definition laterStagesSucceed :: "World \<Rightarrow> bool" where
  "laterStagesSucceed w =
     (case (groqChat w 0, groqChat w 1, groqChat w 2) of
        (Inr reply0, Inr reply1, Inr reply2) \<Rightarrow>
          (case jsonParse w reply0 of
             None \<Rightarrow> True
           | Some c \<Rightarrow> interpolationError c themePromptProperties = None)
      | _ \<Rightarrow> False)"

section \<open>Properties of the query engine\<close>

lemma binarySearch_le: "l \<le> r \<Longrightarrow> binarySearch cmp p w l r \<le> r"
  apply (induction cmp p w l r rule: binarySearch.induct)
  apply (subst binarySearch.simps)
  apply (auto simp: Let_def)
  done

lemma length_binaryInsertionSort:
  "length (binaryInsertionSort cmp w r) = length w + length r"
  by (induction r arbitrary: w) (auto simp: Let_def binarySearch_le)

lemma length_countAndMakeRun:
  "countAndMakeRun cmp xs = (a, b) \<Longrightarrow> length a + length b = length xs"
  by (induction cmp xs rule: countAndMakeRun.induct) (auto simp: Let_def)

lemma length_v8Sort: "length (v8Sort cmp xs) = length xs"
  by (auto simp: v8Sort_def length_binaryInsertionSort dest: length_countAndMakeRun
      split: prod.splits)

text \<open>With both ends in range order, \<^verbatim>\<open>slice\<close> is a window of the list.\<close>

lemma slice_window:
  assumes "0 \<le> start" "0 \<le> n"
  shows "slice xs start (start + n) = take (nat n) (drop (nat start) xs)"
proof -
  let ?len = "int (length xs)"
  consider (inside) "start + n \<le> ?len" | (partial) "start \<le> ?len" "?len < start + n"
    | (outside) "?len < start" by linarith
  then show ?thesis
  proof cases
    case inside
    then have "slice xs start (start + n) = take (nat (start + n - start)) (drop (nat start) xs)"
      using assms by (simp add: slice_def Let_def min_def)
    then show ?thesis by simp
  next
    case partial
    then have "slice xs start (start + n) = take (nat (?len - start)) (drop (nat start) xs)"
      using assms by (simp add: slice_def Let_def min_def)
    moreover have "length (drop (nat start) xs) = nat (?len - start)"
      using assms by simp
    moreover have "nat (?len - start) \<le> nat n" using partial by simp
    ultimately show ?thesis by simp
  next
    case outside
    then show ?thesis using assms by (simp add: slice_def Let_def min_def)
  qed
qed

lemma length_applySort:
  "(\<And>cmp xs. length (srt cmp xs) = length xs) \<Longrightarrow>
   length (applySort srt field params xs) = length xs"
  by (simp add: applySort_def)

lemma beyond_last_page:
  fixes p l :: int and n :: nat
  assumes "1 \<le> l" "\<lceil>real n / real_of_int l\<rceil> < p"
  shows "int n \<le> (p - 1) * l"
proof -
  have "real n / real_of_int l \<le> real_of_int (p - 1)"
    using assms(2) by (metis ceiling_le_iff zle_diff1_eq)
  then have "real n \<le> real_of_int (p - 1) * real_of_int l"
    using assms(1) by (simp add: pos_divide_le_eq)
  then have "real_of_int (int n) \<le> real_of_int ((p - 1) * l)" by simp
  then show ?thesis by linarith
qed

text \<open>
  Claim C1. \<^verbatim>\<open>filterAndPaginate\<close> has no failing branch: it is a total function that
  returns a page and its metadata. For query parameters whose page and limit are at
  least 1 once the defaults are filled in (absent or 0 gives page 1 and limit 10), and
  for every engine sort that keeps the length of the array: \<open>total\<close> is the length of
  the filtered list, \<open>totalPages\<close> is the ceiling of \<open>total / limit\<close>, the data are the
  elements of the filtered and sorted list at the indices from \<open>(page - 1) * limit\<close>
  up to, not including, \<open>page * limit\<close>, and a page beyond \<open>totalPages\<close> has no data.
\<close>

theorem filterAndPaginate_window:
  assumes srt_len: "\<And>cmp xs. length (srt cmp xs) = length xs"
    and page_ok: "1 \<le> or_default (page params) 1"
    and limit_ok: "1 \<le> or_default (limit params) 10"
  shows "(let filtered = applySearch params filterFn dat;
             sorted' = applySort srt field params filtered;
             r = filterAndPaginate srt field dat params filterFn;
             pg = pagination r
          in pg_page pg = or_default (page params) 1
           \<and> pg_limit pg = or_default (limit params) 10
           \<and> pg_total pg = length filtered
           \<and> pg_totalPages pg = \<lceil>real (pg_total pg) / real_of_int (pg_limit pg)\<rceil>
           \<and> data r = take (nat (pg_limit pg)) (drop (nat ((pg_page pg - 1) * pg_limit pg)) sorted')
           \<and> (pg_page pg > pg_totalPages pg \<longrightarrow> data r = []))"
proof -
  let ?p = "or_default (page params) 1" and ?l = "or_default (limit params) 10"
  let ?f = "applySearch params filterFn dat"
  let ?s = "applySort srt field params ?f"
  have len: "length ?s = length ?f" using srt_len by (rule length_applySort)
  have start: "0 \<le> (?p - 1) * ?l" using page_ok limit_ok by simp
  have win: "slice ?s ((?p - 1) * ?l) ((?p - 1) * ?l + ?l)
               = take (nat ?l) (drop (nat ((?p - 1) * ?l)) ?s)"
    using start limit_ok by (intro slice_window) auto
  have empty: "take (nat ?l) (drop (nat ((?p - 1) * ?l)) ?s) = []"
    if "\<lceil>real (length ?f) / real_of_int ?l\<rceil> < ?p"
  proof -
    have "int (length ?s) \<le> (?p - 1) * ?l"
      using beyond_last_page[OF limit_ok that] len by simp
    then show ?thesis by simp
  qed
  show ?thesis
    using win empty by (simp add: filterAndPaginate_def Let_def len)
qed

text \<open>
  The theorem at the five initial products, sorted by price, two to a page: page 2
  holds the third and fourth cheapest, and page 4 of 3 is empty.
\<close>

theorem filterAndPaginate_window_witness:
  "(\<forall>cmp (xs :: Product list). length (v8Sort cmp xs) = length xs)
   \<and> 1 \<le> or_default (page (byPricePage 2)) 1
   \<and> 1 \<le> or_default (limit (byPricePage 2)) 10
   \<and> pg_total (pagination (filterAndPaginate v8Sort productField initialProducts (byPricePage 2) None)) = 5
   \<and> pg_totalPages (pagination (filterAndPaginate v8Sort productField initialProducts (byPricePage 2) None)) = 3
   \<and> map p_id (data (filterAndPaginate v8Sort productField initialProducts (byPricePage 2) None))
        = [''1'', ''3'']
   \<and> data (filterAndPaginate v8Sort productField initialProducts (byPricePage 4) None) = []"
proof -
  have od2: "or_default (page (byPricePage 2)) 1 = 2" "or_default (limit (byPricePage 2)) 10 = 2"
    by (simp_all add: byPricePage_def noParams_def)
  have od4: "or_default (page (byPricePage 4)) 1 = 4" "or_default (limit (byPricePage 4)) 10 = 2"
    by (simp_all add: byPricePage_def noParams_def)
  have h2: "1 \<le> or_default (page (byPricePage 2)) 1" "1 \<le> or_default (limit (byPricePage 2)) 10"
    by (simp_all add: od2)
  have h4: "1 \<le> or_default (page (byPricePage 4)) 1" "1 \<le> or_default (limit (byPricePage 4)) 10"
    by (simp_all add: od4)
  note w2 = filterAndPaginate_window
    [where srt = v8Sort and params = "byPricePage 2" and dat = initialProducts
       and field = productField and filterFn = None, OF length_v8Sort h2]
  note w4 = filterAndPaginate_window
    [where srt = v8Sort and params = "byPricePage 4" and dat = initialProducts
       and field = productField and filterFn = None, OF length_v8Sort h4]
  have filtered: "applySearch (byPricePage n) None initialProducts = initialProducts" for n
    by (simp add: applySearch_def)
  have len: "length initialProducts = 5" by (simp add: initialProducts_def)
  have sorted2: "map p_id (take 2 (drop 2 (applySort v8Sort productField (byPricePage 2) initialProducts)))
      = [''1'', ''3'']"
    by code_simp
  have pages: "\<lceil>(5::real) / 2\<rceil> = 3" by simp
  have t2: "pg_total (pagination (filterAndPaginate v8Sort productField initialProducts (byPricePage 2) None)) = 5"
    using w2 by (simp add: Let_def filtered len)
  have tp2: "pg_totalPages (pagination (filterAndPaginate v8Sort productField initialProducts (byPricePage 2) None)) = 3"
    using w2 pages by (simp add: Let_def filtered len od2)
  have d2: "map p_id (data (filterAndPaginate v8Sort productField initialProducts (byPricePage 2) None))
      = [''1'', ''3'']"
    using w2 sorted2 by (simp add: Let_def filtered od2)
  have d4: "data (filterAndPaginate v8Sort productField initialProducts (byPricePage 4) None) = []"
    proof -
    from w4 have tp: "pg_totalPages (pagination (filterAndPaginate v8Sort productField initialProducts (byPricePage 4) None)) = 3"
      and pg: "pg_page (pagination (filterAndPaginate v8Sort productField initialProducts (byPricePage 4) None)) = 4"
      using pages by (simp_all add: Let_def filtered len od4)
    from w4 have "pg_page (pagination (filterAndPaginate v8Sort productField initialProducts (byPricePage 4) None))
      > pg_totalPages (pagination (filterAndPaginate v8Sort productField initialProducts (byPricePage 4) None))
      \<longrightarrow> data (filterAndPaginate v8Sort productField initialProducts (byPricePage 4) None) = []"
      unfolding Let_def by blast
    then show ?thesis using tp pg by simp
  qed
  show ?thesis using h2 t2 tp2 d2 d4 by (simp add: length_v8Sort)
qed

text \<open>
  The three list operations add nothing to \<^verbatim>\<open>filterAndPaginate\<close> but the simulated
  error and, for products and orders, the exact-match filter applied first.
\<close>

lemma getUsers_result:
  "getUsers srt s env params =
     (if shouldSimulateError env then Inl (Error ''Failed to fetch users'')
      else Inr (filterAndPaginate srt userField (mockUsers s) params (Some userFilterFn)))"
  by (simp add: getUsers_def)

lemma getProducts_no_category:
  "\<not> shouldSimulateError env \<Longrightarrow> \<not> truthy_str (category params) \<Longrightarrow>
   getProducts srt s env params
     = Inr (filterAndPaginate srt productField (mockProducts s) params (Some productFilterFn))"
  by (simp add: getProducts_def)

lemma getOrders_no_status:
  "\<not> shouldSimulateError env \<Longrightarrow> \<not> truthy_str (status params) \<Longrightarrow>
   getOrders srt s env params
     = Inr (filterAndPaginate srt orderField (mockOrders s) params (Some orderFilterFn))"
  by (simp add: getOrders_def)

text \<open>
  The comparison function never answers 0. On two records with equal keys it answers
  \<open>-1\<close> in both orders of its arguments, so it tells the sort that each of them
  comes before the other.
\<close>

lemma compareFn_not_zero: "compareFn field params a b \<noteq> 0"
  by (simp add: compareFn_def Let_def)

lemma js_gt_irrefl: "\<not> js_gt v v"
  by (cases v) simp_all

lemma compareFn_equal_keys:
  assumes "field a (the (sortBy params)) = field b (the (sortBy params))"
  shows "compareFn field params a b = -1 \<and> compareFn field params b a = -1"
  using assms by (simp add: compareFn_def Let_def js_gt_irrefl)

text \<open>The sort of V8 returns any two records with equal keys in the opposite order.\<close>

lemma v8Sort_swaps_equal_pair:
  assumes "field a (the (sortBy params)) = field b (the (sortBy params))"
  shows "v8Sort (compareFn field params) [a, b] = [b, a]"
proof -
  have "compareFn field params b a < 0"
    using compareFn_equal_keys[of field a params b] assms by simp
  then show ?thesis by (simp add: v8Sort_def)
qed

text \<open>
  Claim C2, at the initial products listed with \<^verbatim>\<open>sortBy: 'category'\<close>. Products 1 and
  2 have the same category and product 1 comes first in the store. The comparison
  function answers \<open>-1\<close> for the pair in both orders, and the sort of V8 returns
  product 2 before product 1, in \<^verbatim>\<open>filterAndPaginate\<close> and so in \<^verbatim>\<open>getProducts\<close>: the
  output is sorted by category, and the two records with equal keys have changed
  places.
\<close>

theorem list_by_category_swaps_equal_keys:
  "map p_id initialProducts = [''1'', ''2'', ''3'', ''4'', ''5'']
   \<and> p_category (initialProducts ! 0) = p_category (initialProducts ! 1)
   \<and> compareFn productField sortByCategory (initialProducts ! 0) (initialProducts ! 1) = -1
   \<and> compareFn productField sortByCategory (initialProducts ! 1) (initialProducts ! 0) = -1
   \<and> map p_id (data (filterAndPaginate v8Sort productField initialProducts sortByCategory None))
        = [''2'', ''1'', ''4'', ''3'', ''5'']
   \<and> map p_category (data (filterAndPaginate v8Sort productField initialProducts sortByCategory None))
        = [''Electronics'', ''Electronics'', ''Food & Beverage'', ''Furniture'', ''Sports & Fitness'']
   \<and> (\<exists>r. getProducts v8Sort exampleStore calmEnv sortByCategory = Inr r
            \<and> map p_id (data r) = [''2'', ''1'', ''4'', ''3'', ''5''])"
proof -
  have ids: "map p_id initialProducts = [''1'', ''2'', ''3'', ''4'', ''5'']"
    by (simp add: initialProducts_def)
  have same: "p_category (initialProducts ! 0) = p_category (initialProducts ! 1)"
    by (simp add: initialProducts_def)
  have c01: "compareFn productField sortByCategory (initialProducts ! 0) (initialProducts ! 1) = -1"
    by code_simp
  have c10: "compareFn productField sortByCategory (initialProducts ! 1) (initialProducts ! 0) = -1"
    by code_simp
  have out: "map p_id (data (filterAndPaginate v8Sort productField initialProducts sortByCategory None))
        = [''2'', ''1'', ''4'', ''3'', ''5'']"
    by code_simp
  have cats: "map p_category (data (filterAndPaginate v8Sort productField initialProducts sortByCategory None))
        = [''Electronics'', ''Electronics'', ''Food & Beverage'', ''Furniture'', ''Sports & Fitness'']"
    by code_simp
  have listed: "getProducts v8Sort exampleStore calmEnv sortByCategory
      = Inr (filterAndPaginate v8Sort productField initialProducts sortByCategory None)"
    by code_simp
  show ?thesis using ids same c01 c10 out cats listed by simp
qed

section \<open>Properties of the mutations\<close>

text \<open>
  What the item loop of \<^verbatim>\<open>createOrder\<close> returns when it does not throw: every request
  item has its product in the store, the order item holds that product and its price,
  and the running total has gone through the items from left to right, each time
  adding price times quantity with the engine's operations.
\<close>

lemma mapItems_items:
  "mapItems env products k t0 reqs = Inr (items, t) \<Longrightarrow>
     t = foldl (\<lambda>runningTotal oi.
                  addNumbers env runningTotal
                    (multiplyNumbers env (oi_price oi) (real_of_int (oi_quantity oi)))) t0 items
   \<and> list_all2 (\<lambda>item oi. \<exists>p. find (\<lambda>p. p_id p = ir_productId item) products = Some p
                       \<and> oi_productId oi = ir_productId item \<and> oi_quantity oi = ir_quantity item
                       \<and> oi_price oi = p_price p \<and> oi_product oi = Some p) reqs items"
proof (induction reqs arbitrary: k t0 items t)
  case Nil
  then show ?case by simp
next
  case (Cons item rest)
  from Cons.prems obtain product where
    found: "find (\<lambda>p. p_id p = ir_productId item) products = Some product"
    by (auto split: option.splits)
  from Cons.prems found obtain items' where
    rec: "mapItems env products (Suc k)
            (addNumbers env t0 (multiplyNumbers env (p_price product) (real_of_int (ir_quantity item))))
            rest = Inr (items', t)"
    and items: "items = \<lparr> oi_id = generateId env k, oi_productId = ir_productId item,
                          oi_product = Some product, oi_quantity = ir_quantity item,
                          oi_price = p_price product \<rparr> # items'"
    by (auto simp: Let_def split: sum.splits prod.splits)
  from Cons.IH[OF rec] found items show ?case by simp
qed

lemma updateProduct_orders:
  "mockOrders (snd (updateProduct s env ident productData)) = mockOrders s"
  by (simp add: updateProduct_def Let_def split: option.splits)

lemma foldl_list_all2:
  "list_all2 (\<lambda>x y. \<forall>t. f t x = g t y) xs ys \<Longrightarrow> foldl f t0 xs = foldl g t0 ys"
  by (induction xs ys arbitrary: t0 rule: list_all2_induct) simp_all

text \<open>
  Claim C3. For every order that \<^verbatim>\<open>createOrder\<close> creates: its total is the sum, over the
  items of the request, of the price the referenced product has in the store at that
  moment times the quantity, formed as the program forms it (from 0, from left to
  right, with the engine's addition and multiplication, whatever they round to);
  every order item stores that price (and the product it was read from), so that the
  total is the same sum over the stored prices; the order is appended to the orders.
  No later \<^verbatim>\<open>updateProduct\<close>, whatever it changes and whether it succeeds or throws,
  changes the list of orders: the totals and the stored item prices stay as they were.
\<close>

theorem createOrder_total_snapshot:
  assumes created: "createOrder s env orderData = (Inr order', s')"
  shows "o_total order' = sumOfItems env (\<lambda>item. priceInStore s (ir_productId item)) ir_quantity
                            (co_items orderData)
    \<and> o_total order' = sumOfItems env oi_price oi_quantity (o_items order')
    \<and> list_all2 (\<lambda>item oi. \<exists>p. find (\<lambda>p. p_id p = ir_productId item) (mockProducts s) = Some p
                       \<and> oi_productId oi = ir_productId item \<and> oi_quantity oi = ir_quantity item
                       \<and> oi_price oi = p_price p \<and> oi_product oi = Some p)
          (co_items orderData) (o_items order')
    \<and> mockOrders s' = mockOrders s @ [order']
    \<and> (\<forall>env' ident productData.
          mockOrders (snd (updateProduct s' env' ident productData)) = mockOrders s')"
proof -
  from created obtain items t u where
    mi: "mapItems env (mockProducts s) 0 0 (co_items orderData) = Inr (items, t)"
    and ord: "o_items order' = items" "o_total order' = t"
    and st: "s' = s\<lparr> mockOrders := mockOrders s @ [order'] \<rparr>"
    by (auto simp: createOrder_def Let_def split: if_splits sum.splits option.splits prod.splits)
  from mapItems_items[OF mi] have
    tot: "t = sumOfItems env oi_price oi_quantity items"
    and rel: "list_all2 (\<lambda>item oi. \<exists>p. find (\<lambda>p. p_id p = ir_productId item) (mockProducts s) = Some p
                       \<and> oi_productId oi = ir_productId item \<and> oi_quantity oi = ir_quantity item
                       \<and> oi_price oi = p_price p \<and> oi_product oi = Some p)
          (co_items orderData) items"
    by (simp_all add: sumOfItems_def)
  from rel have "list_all2
      (\<lambda>item oi. \<forall>t. addNumbers env t (multiplyNumbers env (priceInStore s (ir_productId item))
                                         (real_of_int (ir_quantity item)))
                    = addNumbers env t (multiplyNumbers env (oi_price oi) (real_of_int (oi_quantity oi))))
      (co_items orderData) items"
    by (rule list_all2_mono) (auto simp: priceInStore_def)
  then have "sumOfItems env (\<lambda>item. priceInStore s (ir_productId item)) ir_quantity (co_items orderData)
      = sumOfItems env oi_price oi_quantity items"
    unfolding sumOfItems_def by (rule foldl_list_all2)
  with tot rel ord st show ?thesis
    by (simp add: updateProduct_orders)
qed

text \<open>
  An order of one product 1 and two products 4 for user 2, with any addition and
  multiplication: the total is \<open>(0 + 199.99 * 1) + 24.99 * 2\<close> taken with them, and
  setting the price of product 1 to 1 afterwards changes the product and leaves the
  order as it was.
\<close>

theorem createOrder_total_snapshot_witness:
  "\<forall>add mul. \<exists>order' s'.
     createOrder exampleStore (withArithmetic calmEnv add mul) exampleOrderRequest = (Inr order', s')
     \<and> o_total order' = add (add 0 (mul 199.99 1)) (mul 24.99 2)
     \<and> map oi_price (o_items order') = [199.99, 24.99]
     \<and> mockOrders s' = [order']
     \<and> mockOrders (snd (updateProduct s' calmEnv ''1'' priceChange)) = [order']
     \<and> map p_price (mockProducts (snd (updateProduct s' calmEnv ''1'' priceChange)))
          = [1, 299.99, 249.99, 24.99, 39.99]"
proof (intro allI)
  fix add mul :: "real \<Rightarrow> real \<Rightarrow> real"
  let ?env = "withArithmetic calmEnv add mul"
  have calm: "\<not> shouldSimulateError calmEnv" "\<not> shouldSimulateError ?env"
    by (simp_all add: shouldSimulateError_def calmEnv_def withArithmetic_def)
  have ops: "addNumbers ?env = add" "multiplyNumbers ?env = mul"
    by (simp_all add: withArithmetic_def)
  have "\<exists>order' s'. createOrder exampleStore ?env exampleOrderRequest = (Inr order', s')"
    by (simp add: createOrder_def calm exampleStore_def exampleOrderRequest_def initialProducts_def
        initialUsers_def Let_def)
  then obtain order' s' where
    created: "createOrder exampleStore ?env exampleOrderRequest = (Inr order', s')" by blast
  note snapshot = createOrder_total_snapshot[OF created]
  have prices: "priceInStore exampleStore ''1'' = 199.99" "priceInStore exampleStore ''4'' = 24.99"
    by (simp_all add: priceInStore_def exampleStore_def initialProducts_def)
  have total: "o_total order' = add (add 0 (mul 199.99 1)) (mul 24.99 2)"
    using snapshot prices by (simp add: exampleOrderRequest_def sumOfItems_def ops)
  have "list_all2 (\<lambda>item oi. oi_price oi = priceInStore exampleStore (ir_productId item))
          (co_items exampleOrderRequest) (o_items order')"
    using snapshot by (auto simp: priceInStore_def elim!: list_all2_mono)
  then have snap: "map oi_price (o_items order') = [199.99, 24.99]"
    using prices by (auto simp: exampleOrderRequest_def list_all2_Cons1)
  have orders: "mockOrders s' = [order']"
    using snapshot by (simp add: exampleStore_def)
  have kept: "mockOrders (snd (updateProduct s' calmEnv ''1'' priceChange)) = [order']"
    using snapshot orders by simp
  have s': "mockProducts s' = initialProducts"
    using created
    by (auto simp: createOrder_def exampleStore_def Let_def split: if_splits sum.splits option.splits prod.splits)
  have changed: "map p_price (mockProducts (snd (updateProduct s' calmEnv ''1'' priceChange)))
          = [1, 299.99, 249.99, 24.99, 39.99]"
    by (simp add: updateProduct_def calm s' initialProducts_def spreadProduct_def priceChange_def Let_def)
  show "\<exists>order' s'.
     createOrder exampleStore ?env exampleOrderRequest = (Inr order', s')
     \<and> o_total order' = add (add 0 (mul 199.99 1)) (mul 24.99 2)
     \<and> map oi_price (o_items order') = [199.99, 24.99]
     \<and> mockOrders s' = [order']
     \<and> mockOrders (snd (updateProduct s' calmEnv ''1'' priceChange)) = [order']
     \<and> map p_price (mockProducts (snd (updateProduct s' calmEnv ''1'' priceChange)))
          = [1, 299.99, 249.99, 24.99, 39.99]"
    using created total snap orders kept changed
    by - (rule exI[of _ order'], rule exI[of _ s'], intro conjI, assumption+)
qed

lemma findIndex_Some:
  "findIndex P xs = Some k \<Longrightarrow> k < length xs \<and> P (xs ! k)"
  by (induction xs arbitrary: k) (auto split: if_splits option.splits)

lemma findIndex_distinct:
  "distinct (map f xs) \<Longrightarrow> x \<in> set xs \<Longrightarrow>
   \<exists>k < length xs. findIndex (\<lambda>y. f y = f x) xs = Some k \<and> xs ! k = x"
proof (induction xs)
  case Nil
  then show ?case by simp
next
  case (Cons a xs)
  show ?case
  proof (cases "a = x")
    case True
    then show ?thesis by auto
  next
    case False
    with Cons.prems have x_in: "x \<in> set xs" and "f a \<noteq> f x" by auto
    moreover from Cons.IH Cons.prems x_in obtain k where
      "k < length xs" "findIndex (\<lambda>y. f y = f x) xs = Some k" "xs ! k = x" by auto
    ultimately show ?thesis by (intro exI[of _ "Suc k"]) simp
  qed
qed

lemma spreadUser_empty: "spreadUser u emptyUserUpdate = u"
  by (simp add: spreadUser_def emptyUserUpdate_def)

text \<open>
  Claim C8 (amended). A user of the store is designated by its id when the ids of
  the store are distinct. \<^verbatim>\<open>updateUser\<close> with the empty object \<^verbatim>\<open>{}\<close> then either
  throws the simulated error and leaves the store as it is, or returns that user with
  only \<open>updatedAt\<close> replaced by the current timestamp, and stores it in the user's
  slot. With any partial object, an update that is not hit by the simulated error
  returns a record whose \<open>id\<close>, \<open>avatar\<close> and \<open>createdAt\<close> are the user's, and
  whose \<open>name\<close>, \<open>email\<close> and \<open>role\<close> are the user's wherever the partial object
  does not set them.
\<close>

theorem updateUser_empty_partial:
  assumes ids: "distinct (map u_id (mockUsers s))" and u_in: "u \<in> set (mockUsers s)"
  shows "(\<exists>k < length (mockUsers s). mockUsers s ! k = u \<and>
            updateUser s env (u_id u) emptyUserUpdate =
              (if shouldSimulateError env then (Inl (Error ''Failed to update user''), s)
               else (Inr (u\<lparr> u_updatedAt := getCurrentTimestamp env 0 \<rparr>),
                     s\<lparr> mockUsers := (mockUsers s)[k := u\<lparr> u_updatedAt := getCurrentTimestamp env 0 \<rparr>] \<rparr>)))
       \<and> (\<forall>userData. shouldSimulateError env \<or>
            (\<exists>u'. fst (updateUser s env (u_id u) userData) = Inr u'
               \<and> u_id u' = u_id u \<and> u_avatar u' = u_avatar u \<and> u_createdAt u' = u_createdAt u
               \<and> u_name u' = (case uu_name userData of None \<Rightarrow> u_name u | Some v \<Rightarrow> v)
               \<and> u_email u' = (case uu_email userData of None \<Rightarrow> u_email u | Some v \<Rightarrow> v)
               \<and> u_role u' = (case uu_role userData of None \<Rightarrow> u_role u | Some v \<Rightarrow> v)))"
proof -
  from findIndex_distinct[OF ids u_in] obtain k where
    k: "k < length (mockUsers s)" "findIndex (\<lambda>y. u_id y = u_id u) (mockUsers s) = Some k"
       "mockUsers s ! k = u" by blast
  have "updateUser s env (u_id u) emptyUserUpdate =
          (if shouldSimulateError env then (Inl (Error ''Failed to update user''), s)
           else (Inr (u\<lparr> u_updatedAt := getCurrentTimestamp env 0 \<rparr>),
                 s\<lparr> mockUsers := (mockUsers s)[k := u\<lparr> u_updatedAt := getCurrentTimestamp env 0 \<rparr>] \<rparr>))"
    using k by (simp add: updateUser_def Let_def spreadUser_empty)
  moreover have "shouldSimulateError env \<or>
            (\<exists>u'. fst (updateUser s env (u_id u) userData) = Inr u'
               \<and> u_id u' = u_id u \<and> u_avatar u' = u_avatar u \<and> u_createdAt u' = u_createdAt u
               \<and> u_name u' = (case uu_name userData of None \<Rightarrow> u_name u | Some v \<Rightarrow> v)
               \<and> u_email u' = (case uu_email userData of None \<Rightarrow> u_email u | Some v \<Rightarrow> v)
               \<and> u_role u' = (case uu_role userData of None \<Rightarrow> u_role u | Some v \<Rightarrow> v))" for userData
    using k by (simp add: updateUser_def Let_def spreadUser_def)
  ultimately show ?thesis using k by blast
qed

text \<open>
  \<^verbatim>\<open>createUser\<close> with a fresh id adds a user that its id designates.
\<close>

lemma createUser_fresh:
  assumes "createUser s env userData = (Inr u, s1)"
    and "distinct (map u_id (mockUsers s))" and "generateId env 0 \<notin> u_id ` set (mockUsers s)"
  shows "distinct (map u_id (mockUsers s1)) \<and> u \<in> set (mockUsers s1) \<and> mockUsers s1 = mockUsers s @ [u]"
  using assms by (auto simp: createUser_def Let_def split: if_splits)

text \<open>
  The round trip on the example store: the user that \<^verbatim>\<open>createUser\<close> returns comes
  back from \<^verbatim>\<open>updateUser(id, {})\<close> with a new \<open>updatedAt\<close> and nothing else changed.
\<close>

theorem updateUser_empty_partial_witness:
  "\<exists>u s1. createUser exampleStore calmEnv newUserRequest = (Inr u, s1)
     \<and> distinct (map u_id (mockUsers s1)) \<and> u \<in> set (mockUsers s1)
     \<and> \<not> shouldSimulateError laterEnv
     \<and> fst (updateUser s1 laterEnv (u_id u) emptyUserUpdate)
         = Inr (u\<lparr> u_updatedAt := ''2024-03-05T12:30:00.000Z'' \<rparr>)
     \<and> u_name u = ''Alice Brown'' \<and> u_role u = RoleUser \<and> u_updatedAt u = ''2024-02-01T00:00:00.000Z''"
proof -
  have calm: "\<not> shouldSimulateError calmEnv" "\<not> shouldSimulateError laterEnv"
    by (simp_all add: shouldSimulateError_def calmEnv_def laterEnv_def)
  obtain u s1 where created: "createUser exampleStore calmEnv newUserRequest = (Inr u, s1)"
    by (simp add: createUser_def calm Let_def)
  have ids0: "distinct (map u_id (mockUsers exampleStore))"
    by (simp add: exampleStore_def initialUsers_def)
  have fresh: "generateId calmEnv 0 \<notin> u_id ` set (mockUsers exampleStore)"
    by (simp add: exampleStore_def initialUsers_def calmEnv_def)
  from createUser_fresh[OF created ids0 fresh] have
    ids1: "distinct (map u_id (mockUsers s1))" and u_in: "u \<in> set (mockUsers s1)" by blast+
  from updateUser_empty_partial[OF ids1 u_in, of laterEnv] calm have
    upd: "fst (updateUser s1 laterEnv (u_id u) emptyUserUpdate)
            = Inr (u\<lparr> u_updatedAt := getCurrentTimestamp laterEnv 0 \<rparr>)"
    by auto
  have now: "getCurrentTimestamp laterEnv 0 = ''2024-03-05T12:30:00.000Z''"
    by (simp add: laterEnv_def)
  have fields: "u_name u = ''Alice Brown''" "u_role u = RoleUser"
    "u_updatedAt u = ''2024-02-01T00:00:00.000Z''"
    using created
    by (auto simp: createUser_def shouldSimulateError_def Let_def newUserRequest_def calmEnv_def)
  show ?thesis using created ids1 u_in calm(2) upd now fields
    by - (rule exI[of _ u], rule exI[of _ s1], simp)
qed

text \<open>
  The claim as stated fails when the simulated error fires: user 1 exists, and the
  update with \<^verbatim>\<open>{}\<close> returns no record.
\<close>

theorem updateUser_empty_partial_counterexample:
  "u_id (mockUsers exampleStore ! 0) = ''1''
   \<and> shouldSimulateError faultEnv
   \<and> updateUser exampleStore faultEnv ''1'' emptyUserUpdate
       = (Inl (Error ''Failed to update user''), exampleStore)"
  by (simp add: updateUser_def shouldSimulateError_def faultEnv_def calmEnv_def exampleStore_def
      initialUsers_def)

lemma mapItems_missing:
  assumes "\<exists>item\<in>set reqs. find (\<lambda>p. p_id p = ir_productId item) products = None"
  shows "\<exists>item\<in>set reqs. find (\<lambda>p. p_id p = ir_productId item) products = None
           \<and> mapItems env products k t0 reqs
               = Inl (Error (''Product with ID '' @ ir_productId item @ '' not found''))"
  using assms
proof (induction reqs arbitrary: k t0)
  case Nil
  then show ?case by simp
next
  case (Cons item rest)
  show ?case
  proof (cases "find (\<lambda>p. p_id p = ir_productId item) products")
    case None
    then show ?thesis by auto
  next
    case (Some product)
    with Cons.prems have "\<exists>item\<in>set rest. find (\<lambda>p. p_id p = ir_productId item) products = None"
      by auto
    from Cons.IH[OF this, of "Suc k"
        "addNumbers env t0 (multiplyNumbers env (p_price product) (real_of_int (ir_quantity item)))"]
    show ?thesis using Some by (auto simp: Let_def)
  qed
qed

lemma mapItems_found:
  assumes "\<forall>item\<in>set reqs. find (\<lambda>p. p_id p = ir_productId item) products \<noteq> None"
  shows "\<exists>items t. mapItems env products k t0 reqs = Inr (items, t)"
  using assms
proof (induction reqs arbitrary: k t0)
  case Nil
  then show ?case by simp
next
  case (Cons item rest)
  then obtain product where found: "find (\<lambda>p. p_id p = ir_productId item) products = Some product"
    by auto
  from Cons obtain items t where
    "mapItems env products (Suc k)
       (addNumbers env t0 (multiplyNumbers env (p_price product) (real_of_int (ir_quantity item)))) rest
       = Inr (items, t)"
    by fastforce
  with found show ?case by (simp add: Let_def)
qed

lemma isNotFound_product: "isNotFound (Error (''Product with ID '' @ x @ '' not found''))"
proof -
  have "''Product with ID '' @ x @ '' not found'' = (''Product with ID '' @ x @ '' '') @ ''not found''"
    by simp
  then show ?thesis by (simp del: append_assoc append.simps)
qed

text \<open>
  Claim C9 (amended). When an item of the request names a product that is not in the
  store, or the user of the request is not in the store, \<^verbatim>\<open>createOrder\<close> throws and
  leaves the whole store, and so the orders, as it was. The error is the simulated
  error \<^verbatim>\<open>Failed to create order\<close> when that fires; otherwise it is a not-found error:
  \<^verbatim>\<open>Product with ID ... not found\<close> for an item whose product is missing, or
  \<^verbatim>\<open>User not found\<close>.
\<close>

theorem createOrder_missing_reference:
  assumes missing:
    "(\<exists>item\<in>set (co_items orderData). find (\<lambda>p. p_id p = ir_productId item) (mockProducts s) = None)
     \<or> find (\<lambda>u. u_id u = co_userId orderData) (mockUsers s) = None"
  shows "snd (createOrder s env orderData) = s
    \<and> (\<exists>e. fst (createOrder s env orderData) = Inl e
         \<and> (if shouldSimulateError env then e = Error ''Failed to create order''
            else isNotFound e
               \<and> (e = Error ''User not found''
                  \<or> (\<exists>item\<in>set (co_items orderData).
                        find (\<lambda>p. p_id p = ir_productId item) (mockProducts s) = None
                        \<and> e = Error (''Product with ID '' @ ir_productId item @ '' not found'')))))"
proof (cases "shouldSimulateError env")
  case True
  then show ?thesis by (simp add: createOrder_def)
next
  case False
  show ?thesis
  proof (cases "\<exists>item\<in>set (co_items orderData).
                  find (\<lambda>p. p_id p = ir_productId item) (mockProducts s) = None")
    case True
    from mapItems_missing[OF this, of env 0 0] obtain item where
      "item \<in> set (co_items orderData)"
      "find (\<lambda>p. p_id p = ir_productId item) (mockProducts s) = None"
      "mapItems env (mockProducts s) 0 0 (co_items orderData)
         = Inl (Error (''Product with ID '' @ ir_productId item @ '' not found''))"
      by blast
    then show ?thesis using False isNotFound_product[of "ir_productId item"]
      by (auto simp: createOrder_def simp del: isNotFound.simps)
  next
    case no_item: False
    with missing have "find (\<lambda>u. u_id u = co_userId orderData) (mockUsers s) = None" by blast
    moreover from no_item obtain items t where
      "mapItems env (mockProducts s) 0 0 (co_items orderData) = Inr (items, t)"
      using mapItems_found[of "co_items orderData" "mockProducts s" env 0 0] by auto
    ultimately show ?thesis using False
      by (simp add: createOrder_def)
  qed
qed

text \<open>
  The claim as stated fails when the simulated error fires: the user of the request
  is not in the store, and the error thrown is not a not-found error.
\<close>

theorem createOrder_missing_reference_counterexample:
  "find (\<lambda>u. u_id u = ''no-such-user'') (mockUsers exampleStore) = None
   \<and> shouldSimulateError faultEnv
   \<and> createOrder exampleStore faultEnv (exampleOrderRequest\<lparr> co_userId := ''no-such-user'' \<rparr>)
       = (Inl (Error ''Failed to create order''), exampleStore)
   \<and> \<not> isNotFound (Error ''Failed to create order'')"
  by (simp add: createOrder_def shouldSimulateError_def faultEnv_def calmEnv_def exampleStore_def
      initialUsers_def)

text \<open>
  Without the simulated error: a request for a user that does not exist throws
  \<^verbatim>\<open>User not found\<close>, a request for a product that does not exist throws the product
  error, and the store is the same afterwards.
\<close>

theorem createOrder_missing_reference_witness:
  "find (\<lambda>u. u_id u = ''no-such-user'') (mockUsers exampleStore) = None
   \<and> \<not> shouldSimulateError calmEnv
   \<and> createOrder exampleStore calmEnv (exampleOrderRequest\<lparr> co_userId := ''no-such-user'' \<rparr>)
       = (Inl (Error ''User not found''), exampleStore)
   \<and> isNotFound (Error ''User not found'')"
proof -
  let ?req = "exampleOrderRequest\<lparr> co_userId := ''no-such-user'' \<rparr>"
  have nouser: "find (\<lambda>u. u_id u = co_userId ?req) (mockUsers exampleStore) = None"
    by (simp add: exampleStore_def initialUsers_def)
  have calm: "\<not> shouldSimulateError calmEnv"
    by (simp add: shouldSimulateError_def calmEnv_def)
  have found: "\<forall>item\<in>set (co_items ?req).
      find (\<lambda>p. p_id p = ir_productId item) (mockProducts exampleStore) \<noteq> None"
    by (simp add: exampleOrderRequest_def exampleStore_def initialProducts_def)
  from createOrder_missing_reference[of ?req exampleStore calmEnv] nouser calm found
  have "snd (createOrder exampleStore calmEnv ?req) = exampleStore"
    and "fst (createOrder exampleStore calmEnv ?req) = Inl (Error ''User not found'')"
    by auto
  then have "createOrder exampleStore calmEnv ?req = (Inl (Error ''User not found''), exampleStore)"
    by (metis prod.collapse)
  then show ?thesis using nouser calm by simp
qed

section \<open>Properties of the order form\<close>

lemma js_includes_infix: "js_includes (a @ t @ b) t"
proof -
  have "length a \<in> set [0..<Suc (length (a @ t @ b) - length t)]" by simp
  moreover have "take (length t) (drop (length a) (a @ t @ b)) = t" by simp
  ultimately show ?thesis unfolding js_includes_def list_ex_iff by blast
qed

lemma join_member: "x \<in> set xs \<Longrightarrow> \<exists>a b. join sep xs = a @ x @ b"
proof (induction sep xs rule: join.induct)
  case (1 sep)
  then show ?case by simp
next
  case (2 sep y)
  then have "join sep [y] = [] @ x @ []" by simp
  then show ?case by blast
next
  case (3 sep y z zs)
  show ?case
  proof (cases "x = y")
    case True
    then have "join sep (y # z # zs) = [] @ x @ (sep @ join sep (z # zs))" by simp
    then show ?thesis by blast
  next
    case False
    with 3 obtain a b where "join sep (z # zs) = a @ x @ b" by auto
    then have "join sep (y # z # zs) = (y @ sep @ a) @ x @ b" by simp
    then show ?thesis by blast
  qed
qed

lemma join_includes: "x \<in> set xs \<Longrightarrow> js_includes (join sep xs) x"
  using join_member[of x xs sep] js_includes_infix by metis

lemma validateCODForm_violated:
  "validateCODForm fd =
     (if violatedMessages fd = [] then Inr () else Inl (Error (join '', '' (violatedMessages fd))))"
proof -
  have empty: "(s = [] \<or> length s < n) = (length s < n)" if "0 < n" for s :: string and n
    using that by auto
  have digits: "(s = [] \<or> \<not> testDigits n s) = (\<not> testDigits n s)" if "0 < n" for s n
    using that by (auto simp: testDigits_def)
  have email: "(truthy_str e \<and> \<not> testEmail (the e))
      = (case e of None \<Rightarrow> False | Some e \<Rightarrow> e \<noteq> [] \<and> \<not> testEmail e)" for e
    by (cases e) simp_all
  have quantity: "(q = 0 \<or> q < 1 \<or> q > 10) = (q < 1 \<or> 10 < q)" for q :: int
    by auto
  have push: "(if c then es @ [m] else es) = es @ map snd (filter fst [(c, m)])"
    for c and es :: "string list" and m
    by simp
  have all: "violatedMessages fd
      = map snd (filter fst [(length (f_name fd) < 2, ''Name must be at least 2 characters long'')])
      @ map snd (filter fst [(\<not> testDigits 10 (f_phone fd), ''Phone number must be 10 digits'')])
      @ map snd (filter fst [((case f_email fd of None \<Rightarrow> False | Some e \<Rightarrow> e \<noteq> [] \<and> \<not> testEmail e),
                               ''Invalid email format'')])
      @ map snd (filter fst [(length (f_address fd) < 10, ''Address must be at least 10 characters long'')])
      @ map snd (filter fst [(length (f_city fd) < 2, ''City is required'')])
      @ map snd (filter fst [(length (f_state fd) < 2, ''State is required'')])
      @ map snd (filter fst [(\<not> testDigits 6 (f_pincode fd), ''Pincode must be 6 digits'')])
      @ map snd (filter fst [(f_quantity fd < 1 \<or> 10 < f_quantity fd, ''Quantity must be between 1 and 10'')])"
    unfolding violatedMessages_def fieldRules_def
    by (simp only: filter_append[symmetric] map_append[symmetric] append.simps)
  have "validateCODForm fd =
          (if 0 < length (violatedMessages fd)
           then Inl (Error (join '', '' (violatedMessages fd))) else Inr ())"
    unfolding validateCODForm_def Let_def push all
    by (simp only: empty digits email quantity append.simps append_assoc zero_less_numeral)
  then show ?thesis by (cases "violatedMessages fd") simp_all
qed

text \<open>
  Claim C6. \<^verbatim>\<open>validateCODForm\<close> passes when no field violates its rule; otherwise it
  throws one error, whose message is the messages of all the violated fields, in the
  order of the fields, joined by a comma and a space. So every field is checked
  whatever the fields before it: a phone of \<^verbatim>\<open>12345\<close> always gives a message that holds
  the phone message, and a quantity of 11 one that holds the quantity message.
\<close>

theorem validateCODForm_collects_all:
  "validateCODForm fd =
     (if violatedMessages fd = [] then Inr () else Inl (Error (join '', '' (violatedMessages fd))))
   \<and> (\<forall>rule \<in> set (fieldRules fd). fst rule \<longrightarrow>
         (\<exists>msg. validateCODForm fd = Inl (Error msg) \<and> js_includes msg (snd rule)))
   \<and> (f_phone fd = ''12345'' \<longrightarrow>
         (\<exists>msg. validateCODForm fd = Inl (Error msg) \<and> js_includes msg ''Phone number must be 10 digits''))
   \<and> (f_quantity fd = 11 \<longrightarrow>
         (\<exists>msg. validateCODForm fd = Inl (Error msg)
                \<and> js_includes msg ''Quantity must be between 1 and 10''))"
proof -
  have each: "\<exists>msg. validateCODForm fd = Inl (Error msg) \<and> js_includes msg (snd rule)"
    if "rule \<in> set (fieldRules fd)" "fst rule" for rule
  proof -
    from that have "snd rule \<in> set (violatedMessages fd)"
      by (auto simp: violatedMessages_def)
    then show ?thesis
      using join_includes[of "snd rule" "violatedMessages fd" "'', ''"]
      by (auto simp: validateCODForm_violated)
  qed
  have phone: "\<exists>msg. validateCODForm fd = Inl (Error msg) \<and> js_includes msg ''Phone number must be 10 digits''"
    if "f_phone fd = ''12345''"
    using each[of "(\<not> testDigits 10 (f_phone fd), ''Phone number must be 10 digits'')"] that
    by (simp add: fieldRules_def testDigits_def)
  have quantity: "\<exists>msg. validateCODForm fd = Inl (Error msg) \<and> js_includes msg ''Quantity must be between 1 and 10''"
    if "f_quantity fd = 11"
    using each[of "(f_quantity fd < 1 \<or> 10 < f_quantity fd, ''Quantity must be between 1 and 10'')"] that
    by (simp add: fieldRules_def)
  show ?thesis using validateCODForm_violated each phone quantity by blast
qed

text \<open>
  A form whose phone is \<^verbatim>\<open>12345\<close> and whose quantity is 11, and is valid otherwise: one
  error with both messages.
\<close>

theorem validateCODForm_collects_all_witness:
  "f_phone badPhoneAndQuantity = ''12345'' \<and> f_quantity badPhoneAndQuantity = 11
   \<and> violatedMessages badPhoneAndQuantity
        = [''Phone number must be 10 digits'', ''Quantity must be between 1 and 10'']
   \<and> validateCODForm badPhoneAndQuantity
        = Inl (Error ''Phone number must be 10 digits, Quantity must be between 1 and 10'')
   \<and> js_includes ''Phone number must be 10 digits, Quantity must be between 1 and 10''
        ''Phone number must be 10 digits''
   \<and> js_includes ''Phone number must be 10 digits, Quantity must be between 1 and 10''
        ''Quantity must be between 1 and 10''"
proof -
  have fields: "f_phone badPhoneAndQuantity = ''12345''" "f_quantity badPhoneAndQuantity = 11"
    by (simp_all add: badPhoneAndQuantity_def)
  have violated: "violatedMessages badPhoneAndQuantity
        = [''Phone number must be 10 digits'', ''Quantity must be between 1 and 10'']"
    by code_simp
  note all = validateCODForm_collects_all[of badPhoneAndQuantity]
  from all violated have result: "validateCODForm badPhoneAndQuantity
        = Inl (Error ''Phone number must be 10 digits, Quantity must be between 1 and 10'')"
    by simp
  from all fields result have
    "js_includes ''Phone number must be 10 digits, Quantity must be between 1 and 10''
        ''Phone number must be 10 digits''"
    "js_includes ''Phone number must be 10 digits, Quantity must be between 1 and 10''
        ''Quantity must be between 1 and 10''"
    by auto
  with fields violated result show ?thesis by simp
qed

lemma digit36_base36: "d < 36 \<Longrightarrow> isBase36 (digit36 d)"
proof -
  have "\<forall>d \<in> set [0..<36]. isBase36 (digit36 d)"
    by code_simp
  then show "d < 36 \<Longrightarrow> isBase36 (digit36 d)" by simp
qed

lemma toString36_base36: "toString36 n \<noteq> [] \<and> list_all isBase36 (toString36 n)"
proof (induction n rule: toString36.induct)
  case (1 n)
  show ?case
  proof (cases "n < 36")
    case True
    then show ?thesis by (subst (1 2) toString36.simps) (simp add: digit36_base36)
  next
    case False
    with 1 show ?thesis by (subst (1 2) toString36.simps) (simp add: digit36_base36)
  qed
qed

lemma toUpperCaseChar_base36: "isBase36 c \<Longrightarrow> isDigitOrUpper (toUpperCaseChar c)"
  by (auto simp: isBase36_def isDigitOrUpper_def toUpperCaseChar_def isDigit_def Let_def)

lemma toUpperCase_base36: "list_all isBase36 s \<Longrightarrow> list_all isDigitOrUpper (toUpperCase s)"
  by (induction s) (simp_all add: toUpperCase_def toUpperCaseChar_base36)

lemma toUpperCase_fixed:
  "toUpperCase (''COD-'' @ a @ ''-'' @ b) = ''COD-'' @ toUpperCase a @ ''-'' @ toUpperCase b"
proof -
  have "toUpperCase ''COD-'' = ''COD-''" "toUpperCase ''-'' = ''-''" by code_simp+
  then show ?thesis by (simp add: toUpperCase_def)
qed

lemma hyphen_not_alnum: "\<not> isDigitOrUpper CHR ''-''"
  by code_simp

text \<open>
  The shape of the identifier: the stamp is never empty and holds digits and capital
  letters only; the random part is the first five of the digits that the random number
  prints, in capitals.
\<close>

lemma generateOrderId_shape:
  "\<exists>stamp. stamp \<noteq> [] \<and> list_all isDigitOrUpper stamp
     \<and> generateOrderId env = ''COD-'' @ stamp @ ''-'' @ toUpperCase (take 5 (randomDigits env))"
proof -
  let ?stamp = "toUpperCase (toString36 (dateNow env))"
  have "?stamp \<noteq> []" using toString36_base36[of "dateNow env"] by (simp add: toUpperCase_def)
  moreover have "list_all isDigitOrUpper ?stamp"
    using toString36_base36[of "dateNow env"] by (simp add: toUpperCase_base36)
  moreover have "substr (randomToString36 (randomDigits env)) 2 5 = take 5 (randomDigits env)"
    by (simp add: substr_def randomToString36_def)
  then have "generateOrderId env = ''COD-'' @ ?stamp @ ''-'' @ toUpperCase (take 5 (randomDigits env))"
    by (simp only: generateOrderId_def Let_def toUpperCase_fixed)
  ultimately show ?thesis by blast
qed

lemma orderIdFormat_shape:
  assumes "stamp \<noteq> []" "list_all isDigitOrUpper stamp" "list_all isDigitOrUpper r"
  shows "orderIdFormat (''COD-'' @ stamp @ ''-'' @ r) \<longleftrightarrow> length r = 5"
proof (cases "length r = 5")
  case True
  then show ?thesis using assms by (simp add: orderIdFormat_def Let_def)
next
  case False
  show ?thesis
  proof (cases "length r < 5")
    case True
    let ?body = "stamp @ ''-'' @ r"
    let ?k = "length ?body - 6"
    have k: "?k < length stamp" using True assms(1) by (cases stamp) auto
    have "orderIdFormat (''COD-'' @ ?body) \<Longrightarrow> False"
    proof -
      assume fmt: "orderIdFormat (''COD-'' @ ?body)"
      then have len: "length (drop ?k ?body) = 6" and h: "hd (drop ?k ?body) = CHR ''-''"
        by (simp_all add: orderIdFormat_def Let_def)
      have "hd (drop ?k ?body) = stamp ! ?k"
        using k by (simp add: hd_drop_conv_nth nth_append)
      moreover have "isDigitOrUpper (stamp ! ?k)"
        using k assms(2) by (simp add: list_all_length)
      ultimately show False using h hyphen_not_alnum by simp
    qed
    then show ?thesis using True by auto
  next
    case long: False
    with False have "length r - 5 = Suc (length r - 6)" by simp
    then show ?thesis using False hyphen_not_alnum by (auto simp: orderIdFormat_def Let_def)
  qed
qed

text \<open>
  The identifier has the format exactly when the random number prints at least five
  base-36 digits.
\<close>

lemma generateOrderId_format_iff:
  assumes "list_all isBase36 (randomDigits env)"
  shows "orderIdFormat (generateOrderId env) \<longleftrightarrow> 5 \<le> length (randomDigits env)"
proof -
  from generateOrderId_shape[of env] obtain stamp where
    s: "stamp \<noteq> []" "list_all isDigitOrUpper stamp"
    and g: "generateOrderId env = ''COD-'' @ stamp @ ''-'' @ toUpperCase (take 5 (randomDigits env))"
    by blast
  have "list_all isBase36 (take 5 (randomDigits env))"
    using assms by (auto simp: list_all_iff dest: in_set_takeD)
  then have r: "list_all isDigitOrUpper (toUpperCase (take 5 (randomDigits env)))"
    by (rule toUpperCase_base36)
  have "length (toUpperCase (take 5 (randomDigits env))) = 5 \<longleftrightarrow> 5 \<le> length (randomDigits env)"
    by (auto simp: toUpperCase_def)
  with orderIdFormat_shape[OF s r] g show ?thesis by simp
qed

lemma submitOrder_valid:
  assumes "validateCODForm (formData request) = Inr ()"
  shows "submitOrder env request =
    \<lparr> orderId = generateOrderId env, success = True,
      sr_message = ''Order placed successfully! You will receive a confirmation call within 2 hours.'' \<rparr>"
  using assms by (simp add: submitOrder_def)

text \<open>
  Claim C10, at the valid submission of the specification. When \<^verbatim>\<open>Math.random()\<close>
  returns 0.5, which prints as \<^verbatim>\<open>0.i\<close> in base 36, the order succeeds and the
  identifier ends in the single character \<^verbatim>\<open>I\<close>; when it returns 0 the identifier ends in
  the hyphen. Neither has the format \<^verbatim>\<open>COD-[0-9A-Z]+-[0-9A-Z]{5}\<close>. With a random number
  that prints eleven digits the identifier has the format.
\<close>

theorem submitOrder_short_random_part:
  "validateCODForm (formData validRequest) = Inr ()
   \<and> submitOrder halfEnv validRequest =
       \<lparr> orderId = ''COD-LOYW3V28-I'', success = True,
         sr_message = ''Order placed successfully! You will receive a confirmation call within 2 hours.'' \<rparr>
   \<and> \<not> orderIdFormat ''COD-LOYW3V28-I''
   \<and> orderId (submitOrder zeroEnv validRequest) = ''COD-LOYW3V28-''
   \<and> \<not> orderIdFormat ''COD-LOYW3V28-''
   \<and> orderId (submitOrder usualEnv validRequest) = ''COD-LOYW3V28-4FZYO''
   \<and> orderIdFormat ''COD-LOYW3V28-4FZYO''"
proof -
  have valid: "validateCODForm (formData validRequest) = Inr ()"
    by code_simp
  have stamp: "toString36 1700000000000 = ''loyw3v28''"
    by (simp add: toString36.simps digit36_def)
  have up: "toUpperCase ''COD-loyw3v28-i'' = ''COD-LOYW3V28-I''"
    "toUpperCase ''COD-loyw3v28-'' = ''COD-LOYW3V28-''"
    "toUpperCase ''COD-loyw3v28-4fzyo'' = ''COD-LOYW3V28-4FZYO''"
    by code_simp+
  have ids: "generateOrderId halfEnv = ''COD-LOYW3V28-I''"
    "generateOrderId zeroEnv = ''COD-LOYW3V28-''"
    "generateOrderId usualEnv = ''COD-LOYW3V28-4FZYO''"
    using up
    by (simp_all add: generateOrderId_def halfEnv_def zeroEnv_def usualEnv_def stamp substr_def
        randomToString36_def)
  have fmt: "\<not> orderIdFormat ''COD-LOYW3V28-I''" "\<not> orderIdFormat ''COD-LOYW3V28-''"
    "orderIdFormat ''COD-LOYW3V28-4FZYO''"
    by code_simp+
  show ?thesis using valid ids fmt by (simp add: submitOrder_valid)
qed

section \<open>Properties of the generation pipeline\<close>

text \<open>
  The reports of a run. A run that returns has made the nine reports of the stages;
  a run that throws has made the reports of the stages it reached and then the report
  of the error, whose progress is 0.
\<close>

lemma generateLandingPage_reports:
  "(case snd (generateLandingPage True w request) of
      Inr lp \<Rightarrow> map gp_progress (fst (generateLandingPage True w request)) = stageProgress
                \<and> map gp_step (fst (generateLandingPage True w request))
                    = [''starting'', ''extracting'', ''classifying'', ''designing'', ''content'',
                       ''images'', ''countdown'', ''form'', ''completed'']
    | Inl (Error msg) \<Rightarrow>
        (\<exists>n \<in> {2, 3, 4, 5}.
           map gp_progress (fst (generateLandingPage True w request)) = take n stageProgress @ [0])
        \<and> gp_step (last (fst (generateLandingPage True w request))) = ''error''
        \<and> gp_error (last (fst (generateLandingPage True w request))) = Some msg)"
  by (simp add: generateLandingPage_def Let_def updateProgress_def generationFailed_def
      stageProgress_def split: sum.splits error.splits)

lemma generateLandingPage_no_callback:
  "fst (generateLandingPage False w request) = []"
  by (simp add: generateLandingPage_def Let_def updateProgress_def generationFailed_def
      split: sum.splits error.splits)

lemma generateLandingPage_report_range:
  "r \<in> set (fst (generateLandingPage cb w request)) \<Longrightarrow>
     0 \<le> gp_progress r \<and> gp_progress r \<le> 100 \<and> (gp_completed r \<longleftrightarrow> gp_progress r = 100)"
  by (cases cb)
     (auto simp: generateLandingPage_def Let_def updateProgress_def generationFailed_def
        split: sum.splits error.splits)

lemma sorted_stageProgress: "sorted_wrt (<) (take n stageProgress)"
  by (rule sorted_wrt_take) (simp add: stageProgress_def)

text \<open>
  Claim C5 (amended). In every run each reported progress lies between 0 and 100, and
  \<open>completed\<close> is set exactly on a report whose progress is 100. The progress values
  of a run that returns are strictly increasing: 0, 10, 25, 40, 55, 70, 85, 95, 100
  when there is a callback to report to. A run that throws reports strictly
  increasing values for the stages it reached and then, last, the error with
  progress 0, after at least the two reports 0 and 10.
\<close>

theorem progress_reports_of_run:
  "(\<forall>r \<in> set (fst (generateLandingPage cb w request)).
       0 \<le> gp_progress r \<and> gp_progress r \<le> 100 \<and> (gp_completed r \<longleftrightarrow> gp_progress r = 100))
   \<and> ((\<exists>lp. snd (generateLandingPage cb w request) = Inr lp) \<longrightarrow>
         sorted_wrt (<) (map gp_progress (fst (generateLandingPage cb w request)))
         \<and> (cb \<longrightarrow> map gp_progress (fst (generateLandingPage cb w request))
                    = [0, 10, 25, 40, 55, 70, 85, 95, 100]))
   \<and> ((\<exists>e. snd (generateLandingPage cb w request) = Inl e) \<longrightarrow>
         sorted_wrt (<) (map gp_progress (butlast (fst (generateLandingPage cb w request))))
         \<and> (cb \<longrightarrow> 2 \<le> length (butlast (fst (generateLandingPage cb w request)))
                  \<and> gp_step (last (fst (generateLandingPage cb w request))) = ''error''
                  \<and> gp_progress (last (fst (generateLandingPage cb w request))) = 0))"
proof (cases cb)
  case False
  then show ?thesis
    using generateLandingPage_report_range[of _ cb w request]
    by (simp add: generateLandingPage_no_callback)
next
  case True
  let ?reports = "fst (generateLandingPage True w request)"
  have range: "\<forall>r \<in> set ?reports.
       0 \<le> gp_progress r \<and> gp_progress r \<le> 100 \<and> (gp_completed r \<longleftrightarrow> gp_progress r = 100)"
    using generateLandingPage_report_range[of _ True w request] by blast
  note reports = generateLandingPage_reports[of w request]
  have ok: "sorted_wrt (<) (map gp_progress ?reports)
         \<and> map gp_progress ?reports = [0, 10, 25, 40, 55, 70, 85, 95, 100]"
    if "snd (generateLandingPage True w request) = Inr lp" for lp
    using reports that by (simp add: stageProgress_def)
  have bad: "sorted_wrt (<) (map gp_progress (butlast ?reports))
         \<and> 2 \<le> length (butlast ?reports)
         \<and> gp_step (last ?reports) = ''error'' \<and> gp_progress (last ?reports) = 0"
    if "snd (generateLandingPage True w request) = Inl e" for e
  proof -
    obtain msg where e: "e = Error msg" by (cases e)
    from reports that e obtain n where n: "n \<in> {2, 3, 4, 5}"
      and progress: "map gp_progress ?reports = take n stageProgress @ [0]"
      and step: "gp_step (last ?reports) = ''error''"
      by auto
    from progress have nonempty: "?reports \<noteq> []" by auto
    have "map gp_progress (butlast ?reports) = butlast (map gp_progress ?reports)"
      by (simp add: map_butlast)
    with progress have front: "map gp_progress (butlast ?reports) = take n stageProgress"
      by simp
    from front have "length (butlast ?reports) = length (take n stageProgress)"
      by (metis length_map)
    with n have len: "2 \<le> length (butlast ?reports)" by (auto simp: stageProgress_def)
    have "gp_progress (last ?reports) = last (map gp_progress ?reports)"
      using nonempty by (simp add: last_map)
    with progress have "gp_progress (last ?reports) = 0" by simp
    with front len step show ?thesis by (simp add: sorted_stageProgress)
  qed
  from True have cb: "cb = True" by simp
  show ?thesis unfolding cb using range ok bad by blast
qed

lemma fallbackWorld_run:
  "map gp_progress (fst (generateLandingPage True fallbackWorld exampleRequest)) = stageProgress
   \<and> (\<exists>lp. snd (generateLandingPage True fallbackWorld exampleRequest) = Inr lp
            \<and> lp_productInfo lp = serpProduct
            \<and> lp_classification lp = fallbackClassification serpProduct)"
  by (simp add: generateLandingPage_def Let_def updateProgress_def fallbackWorld_def
      extractProductInfo_def scrapeProductPage_def serp_extractProductInfo_def
      classifyProduct_def generateDesignTheme_def generateContent_def exampleParse_def
      proseReply_def fallbackClassification_def stageProgress_def
      themePromptProperties_def contentPromptProperties_def)

lemma noExtractionWorld_run:
  "map gp_progress (fst (generateLandingPage True noExtractionWorld exampleRequest)) = [0, 10, 0]
   \<and> map gp_step (fst (generateLandingPage True noExtractionWorld exampleRequest))
       = [''starting'', ''extracting'', ''error'']
   \<and> snd (generateLandingPage True noExtractionWorld exampleRequest)
       = Inl (Error ''Failed to extract product information'')"
  by (simp add: generateLandingPage_def Let_def updateProgress_def generationFailed_def
      noExtractionWorld_def fallbackWorld_def
      extractProductInfo_def scrapeProductPage_def serp_extractProductInfo_def)


text \<open>
  A classification with a property that cannot be converted to a string stops the run
  at the design theme, whose prompt cannot be built.
\<close>

lemma shadowedReplyWorld_run:
  "map gp_step (fst (generateLandingPage True shadowedReplyWorld exampleRequest))
     = [''starting'', ''extracting'', ''classifying'', ''designing'', ''error'']
   \<and> snd (generateLandingPage True shadowedReplyWorld exampleRequest)
       = Inl (Error ''Cannot convert object to primitive value'')
   \<and> laterStagesSucceed shadowedReplyWorld = False"
  by (simp add: generateLandingPage_def Let_def updateProgress_def generationFailed_def
      shadowedReplyWorld_def fallbackWorld_def classifyProduct_def generateDesignTheme_def
      extractProductInfo_def scrapeProductPage_def serp_extractProductInfo_def
      shadowedClassification_def themePromptProperties_def conversionError_def
      laterStagesSucceed_def)

text \<open>
  The run in which the fallback extractor succeeds and the language model answers in
  prose returns after the nine reports; the run in which no extractor succeeds
  reports 0, 10 and then the error with progress 0.
\<close>

theorem progress_reports_of_run_witness:
  "(\<exists>lp. snd (generateLandingPage True fallbackWorld exampleRequest) = Inr lp)
   \<and> map gp_progress (fst (generateLandingPage True fallbackWorld exampleRequest))
       = [0, 10, 25, 40, 55, 70, 85, 95, 100]
   \<and> sorted_wrt (<) (map gp_progress (fst (generateLandingPage True fallbackWorld exampleRequest)))
   \<and> (\<exists>e. snd (generateLandingPage True noExtractionWorld exampleRequest) = Inl e)
   \<and> sorted_wrt (<) (map gp_progress (butlast (fst (generateLandingPage True noExtractionWorld exampleRequest))))
   \<and> gp_step (last (fst (generateLandingPage True noExtractionWorld exampleRequest))) = ''error''
   \<and> gp_progress (last (fst (generateLandingPage True noExtractionWorld exampleRequest))) = 0"
proof -
  have ok: "\<exists>lp. snd (generateLandingPage True fallbackWorld exampleRequest) = Inr lp"
    using fallbackWorld_run by blast
  have bad: "\<exists>e. snd (generateLandingPage True noExtractionWorld exampleRequest) = Inl e"
    using noExtractionWorld_run by simp
  have progress: "map gp_progress (fst (generateLandingPage True fallbackWorld exampleRequest))
       = [0, 10, 25, 40, 55, 70, 85, 95, 100]"
    using fallbackWorld_run by (simp add: stageProgress_def)
  from progress_reports_of_run[of True fallbackWorld exampleRequest] ok
  have inc: "sorted_wrt (<) (map gp_progress (fst (generateLandingPage True fallbackWorld exampleRequest)))"
    by blast
  from progress_reports_of_run[of True noExtractionWorld exampleRequest] bad
  have "sorted_wrt (<) (map gp_progress (butlast (fst (generateLandingPage True noExtractionWorld exampleRequest))))"
    "gp_step (last (fst (generateLandingPage True noExtractionWorld exampleRequest))) = ''error''"
    "gp_progress (last (fst (generateLandingPage True noExtractionWorld exampleRequest))) = 0"
    by blast+
  with ok bad progress inc show ?thesis by blast
qed

text \<open>
  The claim as stated fails on a run that throws: when no extractor succeeds the
  reported progress values are 0, 10, 0, which is not a non-decreasing sequence.
\<close>

theorem progress_reports_counterexample:
  "snd (generateLandingPage True noExtractionWorld exampleRequest)
     = Inl (Error ''Failed to extract product information'')
   \<and> map gp_progress (fst (generateLandingPage True noExtractionWorld exampleRequest)) = [0, 10, 0]
   \<and> \<not> sorted (map gp_progress (fst (generateLandingPage True noExtractionWorld exampleRequest)))"
  using noExtractionWorld_run by simp

lemma fallbackClassification_not_null: "fallbackClassification productInfo \<noteq> JNull"
  by (simp add: fallbackClassification_def)

text \<open>
  Claim C7. When the call of the language model for the classification returns a reply
  and the reply does not parse, \<^verbatim>\<open>classifyProduct\<close> returns the fallback classification.
  It is an object, not \<^verbatim>\<open>null\<close>; it depends on nothing but the price of the product,
  which decides its \<open>priceRange\<close>: \<^verbatim>\<open>budget\<close> under 50, \<^verbatim>\<open>mid-range\<close> under 200,
  \<^verbatim>\<open>premium\<close> from 200. The pipeline goes on: it reports the next stage, \<^verbatim>\<open>designing\<close>,
  and a run that returns holds this classification.
\<close>

theorem classifyProduct_parse_failure:
  assumes extracted: "extractProductInfo w (productUrl request) = Inr productInfo"
    and reply: "groqChat w 0 = Inr response"
    and unparsable: "jsonParse w response = None"
  shows "classifyProduct (jsonParse w) (groqChat w 0) productInfo = Inr (fallbackClassification productInfo)
    \<and> fallbackClassification productInfo \<noteq> JNull
    \<and> fallbackClassification productInfo =
        JObject [(''category'', JString ''other''), (''subcategory'', JString ''general''),
                 (''targetAudience'', JString ''general''),
                 (''priceRange'', JString (if pi_price productInfo < 50 then ''budget''
                                           else if pi_price productInfo < 200 then ''mid-range''
                                           else ''premium''))]
    \<and> (\<forall>other. pi_price other = pi_price productInfo \<longrightarrow>
          fallbackClassification other = fallbackClassification productInfo)
    \<and> (\<exists>r \<in> set (fst (generateLandingPage True w request)).
          gp_step r = ''designing'' \<and> gp_progress r = 40)
    \<and> (\<forall>cb lp. snd (generateLandingPage cb w request) = Inr lp \<longrightarrow>
          lp_classification lp = fallbackClassification productInfo)"
proof -
  have classified: "classifyProduct (jsonParse w) (groqChat w 0) productInfo
      = Inr (fallbackClassification productInfo)"
    using reply unparsable by (simp add: classifyProduct_def)
  have designing: "\<exists>r \<in> set (fst (generateLandingPage True w request)).
          gp_step r = ''designing'' \<and> gp_progress r = 40"
    using extracted classified
    by (auto simp: generateLandingPage_def Let_def updateProgress_def generationFailed_def
        split: sum.splits error.splits)
  have kept: "lp_classification lp = fallbackClassification productInfo"
    if "snd (generateLandingPage cb w request) = Inr lp" for cb lp
    using that extracted classified
    by (auto simp: generateLandingPage_def Let_def generationFailed_def
        split: sum.splits error.splits)
  show ?thesis
    using classified designing kept fallbackClassification_not_null
    by (simp add: fallbackClassification_def)
qed

text \<open>
  The run of \<open>fallbackWorld\<close>: the product costs 39.99, the reply is prose, and the
  classification of the returned page is the fallback with the range \<^verbatim>\<open>budget\<close>.
\<close>

theorem classifyProduct_parse_failure_witness:
  "extractProductInfo fallbackWorld (productUrl exampleRequest) = Inr serpProduct
   \<and> groqChat fallbackWorld 0 = Inr proseReply
   \<and> jsonParse fallbackWorld proseReply = None
   \<and> classifyProduct (jsonParse fallbackWorld) (groqChat fallbackWorld 0) serpProduct
       = Inr (JObject [(''category'', JString ''other''), (''subcategory'', JString ''general''),
                       (''targetAudience'', JString ''general''), (''priceRange'', JString ''budget'')])"
proof -
  have extracted: "extractProductInfo fallbackWorld (productUrl exampleRequest) = Inr serpProduct"
    by (simp add: extractProductInfo_def scrapeProductPage_def serp_extractProductInfo_def
        fallbackWorld_def)
  have reply: "groqChat fallbackWorld 0 = Inr proseReply"
    by (simp add: fallbackWorld_def)
  have unparsable: "jsonParse fallbackWorld proseReply = None"
    by (simp add: fallbackWorld_def exampleParse_def proseReply_def)
  have price: "pi_price serpProduct < 50" by (simp add: serpProduct_def)
  from classifyProduct_parse_failure[OF extracted reply unparsable] price
  have "classifyProduct (jsonParse fallbackWorld) (groqChat fallbackWorld 0) serpProduct
       = Inr (JObject [(''category'', JString ''other''), (''subcategory'', JString ''general''),
                       (''targetAudience'', JString ''general''), (''priceRange'', JString ''budget'')])"
    by simp
  with extracted reply unparsable show ?thesis by simp
qed











end
